theory Spec2Isabelle
  imports Complex_Main "HOL-Library.Sublist" "HOL-Library.Word"
begin

unbundle bit_operations_syntax

section \<open>Python values and builtins used by \<open>http_api.py\<close>\<close>

text \<open>
  Python floats are modelled with their special values. Arithmetic on finite values is
  exact: rounding, overflow of a finite result to an infinity, and the sign of zero are
  not modelled. A finite value so small that dividing by it overflows in the code is
  therefore outside the model: for a progress of 5e-324 the code computes
  \<open>(1.0 - p) / p\<close> as \<open>inf\<close>, and \<open>inf * 0\<close> is \<open>nan\<close>, where the model computes 0.
\<close>

datatype pyfloat = Finite rat | PInf | NInf | NaN

text \<open>
  A Python value as \<open>json.loads\<close> produces it (and as callers pass it). A dict is the
  list of its items; lookup takes the first item with the key.
\<close>

datatype pyval =
    PNone
  | PBool bool
  | PInt int
  | PFloat pyfloat
  | PStr string
  | PList "pyval list"
  | PDict "(string \<times> pyval) list"

text \<open>
  An HTTP response as the \<open>requests\<close> library hands it over. \<open>json_body\<close> is what
  \<open>r.json()\<close> parses; \<open>None\<close> when the body is not JSON (\<open>r.json()\<close> raises
  \<open>ValueError\<close>).
\<close>

record response =
  status_code :: int
  headers :: "(string \<times> string) list"
  text_body :: string
  json_body :: "pyval option"

text \<open>
  Exceptions. \<open>ServerError\<close> and \<open>RSGServerError\<close> carry the response and the JSON
  value their message is formatted from; \<open>PyException\<close> carries its message.
  \<open>BareRaise\<close> is a \<open>raise\<close> statement without an argument.
\<close>

datatype error =
    AssertionError
  | KeyError string
  | IndexError
  | ValueError
  | TypeError
  | AttributeError
  | OverflowError
  | ZeroDivisionError
  | BareRaise
  | HTTPError
  | PyException string
  | ServerError response pyval
  | RSGServerError response pyval

subsection \<open>String methods\<close>

definition endswith :: "string \<Rightarrow> string \<Rightarrow> bool" where
  "endswith s suf \<longleftrightarrow>
     length suf \<le> length s \<and> drop (length s - length suf) s = suf"

definition startswith :: "string \<Rightarrow> string \<Rightarrow> bool" where
  "startswith s pre \<longleftrightarrow> take (length pre) s = pre"

text \<open>\<open>s.rindex(sub)\<close>: the highest index where \<open>sub\<close> occurs in \<open>s\<close>.\<close>

definition rindex :: "string \<Rightarrow> string \<Rightarrow> error + nat" where
  "rindex s sub =
     (if length sub \<le> length s then
        (case filter (\<lambda>i. take (length sub) (drop i s) = sub)
                (rev [0 ..< Suc (length s - length sub)]) of
           [] \<Rightarrow> Inl ValueError
         | i # _ \<Rightarrow> Inr i)
      else Inl ValueError)"

section \<open>Domain objects\<close>

datatype object_class = AxxonObject | Camera | Archive | Detector

record axxon_object =
  obj_class :: object_class
  obj_id :: string

record detector = axxon_object +
  det_endpoint :: "string option"
  det_camera :: axxon_object
  det_name :: "string option"

text \<open>\<open>Detector.__init__(self, id, camera, name=None)\<close>\<close>

definition Detector_init :: "string \<Rightarrow> axxon_object \<Rightarrow> string option \<Rightarrow> error + detector" where
  "Detector_init i camera name =
     (if endswith i ''EventSupplier'' then
        Inr \<lparr>obj_class = Detector, obj_id = i,
             det_endpoint = None, det_camera = camera, det_name = name\<rparr>
      else if endswith i ''SourceEndpoint.vmda'' then
        (case rindex i ''SourceEndpoint.vmda'' of
           Inl e \<Rightarrow> Inl e
         | Inr k \<Rightarrow>
             Inr \<lparr>obj_class = Detector, obj_id = take k i @ ''EventSupplier'',
                  det_endpoint = Some i, det_camera = camera, det_name = name\<rparr>)
      else Inl BareRaise)"

section \<open>Error checking of responses\<close>

text \<open>
  \<open>Response.raise_for_status()\<close> of the \<open>requests\<close> library, which the repository
  calls and does not contain: it raises \<open>HTTPError\<close> for a status code from 400 to 599
  and returns for any other.
\<close>

definition raise_for_status :: "response \<Rightarrow> error + unit" where
  "raise_for_status r =
     (if 400 \<le> status_code r \<and> status_code r < 600 then Inl HTTPError else Inr ())"

text \<open>\<open>r.json()\<close>\<close>

definition json :: "response \<Rightarrow> error + pyval" where
  "json r = (case json_body r of None \<Rightarrow> Inl ValueError | Some j \<Rightarrow> Inr j)"

text \<open>\<open>WebHttpApi.check_for_error(r)\<close>\<close>

definition WebHttpApi_check_for_error :: "response \<Rightarrow> error + unit" where
  "WebHttpApi_check_for_error r =
     (case raise_for_status r of
        Inr u \<Rightarrow> Inr ()
      | Inl e \<Rightarrow>
          (if e = HTTPError then
             (case json r of
                Inr j \<Rightarrow> Inl (ServerError r j)
              | Inl e' \<Rightarrow> if e' = ValueError then Inl (ServerError r (PDict [])) else Inl e')
           else Inl e))"

text \<open>\<open>v[key]\<close> for a string key: only a dict can be subscripted by a string.\<close>

fun getitem :: "pyval \<Rightarrow> string \<Rightarrow> error + pyval" where
  "getitem (PDict kvs) k = (case map_of kvs k of None \<Rightarrow> Inl (KeyError k) | Some v \<Rightarrow> Inr v)"
| "getitem _ k = Inl TypeError"

definition ignored_messages :: "pyval list" where
  "ignored_messages =
     [PStr ''Can't find objects to delete'',
      PStr ''Can't find detectors to remove'',
      PStr ''Nothing to flush, no operations were performed'']"

text \<open>\<open>RsgHttpApi.check_for_error(r)\<close>\<close>

definition RsgHttpApi_check_for_error :: "response \<Rightarrow> error + unit" where
  "RsgHttpApi_check_for_error r =
     (case json r of
        Inl e \<Rightarrow> Inl e
      | Inr j \<Rightarrow>
          (case getitem j ''Result'' of
             Inl e \<Rightarrow> Inl e
           | Inr res \<Rightarrow>
               if res \<noteq> PStr ''Success'' then
                 (case getitem j ''Message'' of
                    Inl e \<Rightarrow> Inl e
                  | Inr m \<Rightarrow>
                      if m \<notin> set ignored_messages then Inl (RSGServerError r j)
                      else Inr ())
               else Inr ()))"

section \<open>Creating an object and finding it by the difference of two snapshots\<close>


section \<open>Equality and hashing of domain objects\<close>

text \<open>\<open>type(self).__name__\<close>\<close>

fun type_name :: "object_class \<Rightarrow> string" where
  "type_name AxxonObject = ''AxxonObject''"
| "type_name Camera = ''Camera''"
| "type_name Archive = ''Archive''"
| "type_name Detector = ''Detector''"

text \<open>
  \<open>repr\<close> of a byte string, the \<open>{!r}\<close> of the format string: the string is quoted with
  \<open>'\<close>, or with \<open>"\<close> when it holds a \<open>'\<close> and no \<open>"\<close>; the quote and the backslash are
  escaped with a backslash, tab, newline and carriage return are written \<open>\t\<close>, \<open>\n\<close>,
  \<open>\r\<close>, and any other byte below 32 or from 127 on as \<open>\x\<close> and two hexadecimal digits.
\<close>

definition hexdigit :: "nat \<Rightarrow> char" where
  "hexdigit n = ''0123456789abcdef'' ! n"

definition repr_quote :: "string \<Rightarrow> char" where
  "repr_quote s =
     (if CHR 0x27 \<in> set s \<and> CHR 0x22 \<notin> set s then CHR 0x22 else CHR 0x27)"

definition repr_char :: "char \<Rightarrow> char \<Rightarrow> string" where
  "repr_char q c =
     (if c = q \<or> c = CHR 0x5C then [CHR 0x5C, c]
      else if c = CHR 0x09 then [CHR 0x5C, CHR ''t'']
      else if c = CHR 0x0A then [CHR 0x5C, CHR ''n'']
      else if c = CHR 0x0D then [CHR 0x5C, CHR ''r'']
      else if (of_char c :: nat) < 32 \<or> 127 \<le> (of_char c :: nat) then
        [CHR 0x5C, CHR ''x'', hexdigit (of_char c div 16), hexdigit (of_char c mod 16)]
      else [c])"

definition repr :: "string \<Rightarrow> string" where
  "repr s = repr_quote s # concat (map (repr_char (repr_quote s)) s) @ [repr_quote s]"

text \<open>The string that \<open>__hash__\<close> hashes: \<open>'{}{!r}'.format(type(self).__name__, self.id)\<close>.\<close>

definition hash_key :: "axxon_object \<Rightarrow> string" where
  "hash_key a = type_name (obj_class a) @ repr (obj_id a)"

text \<open>
  \<open>AxxonObject.__hash__\<close> and \<open>AxxonObject.__eq__\<close>. The builtin \<open>hash\<close> of a string is the
  parameter \<open>h\<close>; its values are machine words.
\<close>

definition AxxonObject_hash :: "(string \<Rightarrow> 'w::len word) \<Rightarrow> axxon_object \<Rightarrow> 'w word" where
  "AxxonObject_hash h a = h (hash_key a)"

definition AxxonObject_eq :: "(string \<Rightarrow> 'w::len word) \<Rightarrow> axxon_object \<Rightarrow> axxon_object \<Rightarrow> bool" where
  "AxxonObject_eq h a b \<longleftrightarrow> AxxonObject_hash h a = AxxonObject_hash h b"

definition AxxonObject_ne :: "(string \<Rightarrow> 'w::len word) \<Rightarrow> axxon_object \<Rightarrow> axxon_object \<Rightarrow> bool" where
  "AxxonObject_ne h a b \<longleftrightarrow> \<not> AxxonObject_eq h a b"

text \<open>
  The builtin \<open>hash\<close> of a byte string in CPython 2.7, the interpreter the module is
  written for (\<open>string_hash\<close> in \<open>Objects/stringobject.c\<close>, with hash randomization
  off, as it is unless asked for): \<open>x = ord(s[0]) << 7\<close>, then
  \<open>x = (1000003 * x) ^ ord(c)\<close> for every character \<open>c\<close> of \<open>s\<close>, then \<open>x ^= len(s)\<close>,
  and \<open>-1\<close> becomes \<open>-2\<close>; the hash of the empty string is 0. \<open>x\<close> is a C \<open>long\<close>, of
  64 bits on Linux and of 32 bits on Windows.
\<close>

definition string_hash :: "string \<Rightarrow> 'w::len word" where
  "string_hash s =
     (case s of
        [] \<Rightarrow> 0
      | c # cs \<Rightarrow>
          (let x = fold (\<lambda>c x. (1000003 * x) XOR word_of_nat (of_char c)) s
                     (push_bit 7 (word_of_nat (of_char c)));
               x = x XOR word_of_nat (length s)
           in if x = - 1 then - 2 else x))"

section \<open>Builtins and library functions taken as parameters\<close>

text \<open>
  What the code calls and this development does not define: how \<open>int\<close> and \<open>float\<close> read
  a string (\<open>None\<close> where they raise \<open>ValueError\<close>), how \<open>str.format\<close> renders a value,
  the two conversions of the \<open>arrow\<close> library between an instant \<open>'t\<close> and a
  timestamp string, and \<open>os.path.join\<close>.
\<close>

record 't builtins =
  int_of_str :: "string \<Rightarrow> int option"
  float_of_str :: "string \<Rightarrow> pyfloat option"
  format_val :: "pyval \<Rightarrow> string"
  arrow_to_ts :: "'t \<Rightarrow> string"
  ts_to_arrow :: "pyval \<Rightarrow> error + 't"
  path_join :: "string \<Rightarrow> string \<Rightarrow> string"

text \<open>\<open>int(v)\<close>\<close>

fun py_int :: "('t, 'x) builtins_scheme \<Rightarrow> pyval \<Rightarrow> error + int" where
  "py_int env (PInt n) = Inr n"
| "py_int env (PBool b) = Inr (if b then 1 else 0)"
| "py_int env (PFloat (Finite x)) = Inr (if 0 \<le> x then \<lfloor>x\<rfloor> else \<lceil>x\<rceil>)"
| "py_int env (PFloat NaN) = Inl ValueError"
| "py_int env (PFloat PInf) = Inl OverflowError"
| "py_int env (PFloat NInf) = Inl OverflowError"
| "py_int env (PStr s) = (case int_of_str env s of None \<Rightarrow> Inl ValueError | Some n \<Rightarrow> Inr n)"
| "py_int env PNone = Inl TypeError"
| "py_int env (PList xs) = Inl TypeError"
| "py_int env (PDict kvs) = Inl TypeError"

text \<open>\<open>len(v)\<close>, \<open>v[0]\<close> and the items a \<open>for\<close> loop over \<open>v\<close> visits.\<close>

fun py_len :: "pyval \<Rightarrow> error + nat" where
  "py_len (PList xs) = Inr (length xs)"
| "py_len (PStr s) = Inr (length s)"
| "py_len (PDict kvs) = Inr (length kvs)"
| "py_len _ = Inl TypeError"

fun py_first :: "pyval \<Rightarrow> error + pyval" where
  "py_first (PList xs) = (case xs of [] \<Rightarrow> Inl IndexError | x # _ \<Rightarrow> Inr x)"
| "py_first (PStr s) = (case s of [] \<Rightarrow> Inl IndexError | c # _ \<Rightarrow> Inr (PStr [c]))"
| "py_first (PDict kvs) = Inl (KeyError ''0'')"
| "py_first _ = Inl TypeError"

fun py_iter :: "pyval \<Rightarrow> error + pyval list" where
  "py_iter (PList xs) = Inr xs"
| "py_iter (PStr s) = Inr (map (\<lambda>c. PStr [c]) s)"
| "py_iter (PDict kvs) = Inr (map (\<lambda>kv. PStr (fst kv)) kvs)"
| "py_iter _ = Inl TypeError"

text \<open>A list comprehension: the first element that raises ends it.\<close>

fun map_raising :: "('a \<Rightarrow> error + 'b) \<Rightarrow> 'a list \<Rightarrow> error + 'b list" where
  "map_raising f [] = Inr []"
| "map_raising f (x # xs) =
     (case f x of
        Inl e \<Rightarrow> Inl e
      | Inr y \<Rightarrow> (case map_raising f xs of Inl e \<Rightarrow> Inl e | Inr ys \<Rightarrow> Inr (y # ys)))"

text \<open>\<open>s.split(sep)\<close> for a separator of one character, and \<open>sep.join(ws)\<close>.\<close>

fun split :: "char \<Rightarrow> string \<Rightarrow> string list" where
  "split sep [] = [[]]"
| "split sep (c # cs) =
     (if c = sep then [] # split sep cs
      else (case split sep cs of [] \<Rightarrow> [[c]] | w # ws \<Rightarrow> (c # w) # ws))"

fun join :: "string \<Rightarrow> string list \<Rightarrow> string" where
  "join sep [] = []"
| "join sep [w] = w"
| "join sep (w # ws) = w @ sep @ join sep ws"

text \<open>
  \<open>sorted(xs, key=key, reverse=reverse)\<close>: a stable sort; with \<open>reverse\<close> the elements
  with equal keys keep their order too.
\<close>

definition py_sorted :: "('a \<Rightarrow> 'k::linorder) \<Rightarrow> bool \<Rightarrow> 'a list \<Rightarrow> 'a list" where
  "py_sorted key reverse xs =
     (if reverse then rev (sort_key key (rev xs)) else sort_key key xs)"

section \<open>The web server's client\<close>

text \<open>
  A request as \<open>Connection.get\<close> issues it: the path under the base URL and the
  \<open>params\<close> dict. The server is a function from requests to responses. Every operation
  returns the requests it issued, in order, beside its result.
\<close>

record request =
  req_path :: string
  req_params :: "string \<rightharpoonup> int"

type_synonym 'a traced = "request list \<times> (error + 'a)"

definition bind_traced :: "'a traced \<Rightarrow> ('a \<Rightarrow> 'b traced) \<Rightarrow> 'b traced" where
  "bind_traced m f =
     (case m of
        (tr, Inl e) \<Rightarrow> (tr, Inl e)
      | (tr, Inr x) \<Rightarrow> (case f x of (tr', y) \<Rightarrow> (tr @ tr', y)))"

definition untraced :: "error + 'a \<Rightarrow> 'a traced" where
  "untraced x = ([], x)"

text \<open>\<open>WebHttpApi.get(path, params=params)\<close>, through \<open>Connection.prepare\<close>.\<close>

definition WebHttpApi_get ::
  "(request \<Rightarrow> response) \<Rightarrow> string \<Rightarrow> (string \<rightharpoonup> int) \<Rightarrow> response traced" where
  "WebHttpApi_get server path params =
     (if \<not> startswith path ''/'' then ([], Inl AssertionError)
      else
        (let q = \<lparr>req_path = path, req_params = params\<rparr>; r = server q
         in case WebHttpApi_check_for_error r of
              Inl e \<Rightarrow> ([q], Inl e)
            | Inr u \<Rightarrow> ([q], Inr r)))"

text \<open>\<open>WebHttpApi.get_nodes()\<close>\<close>

definition get_nodes :: "(request \<Rightarrow> response) \<Rightarrow> pyval traced" where
  "get_nodes server =
     bind_traced (WebHttpApi_get server ''/hosts'' Map.empty) (\<lambda>r. untraced (json r))"

text \<open>\<open>add_int_to_dict(dict_, key, val)\<close>; the dict it updates in place is returned.\<close>

definition add_int_to_dict ::
  "('t, 'x) builtins_scheme \<Rightarrow> (string \<rightharpoonup> int) \<Rightarrow> string \<Rightarrow> pyval \<Rightarrow> error + (string \<rightharpoonup> int)" where
  "add_int_to_dict env dict key val =
     (if val \<noteq> PNone then
        (case py_int env val of
           Inr n \<Rightarrow> Inr (dict(''key'' \<mapsto> n))
         | Inl e \<Rightarrow>
             if e = ValueError then
               Inl (PyException (''Wrong value of '' @ key @ '' = '' @ format_val env val))
             else Inl e)
      else Inr dict)"

text \<open>\<open>Camera.from_display_id(node, display_id, channel=0, stream=0)\<close>\<close>

definition Camera_from_display_id ::
  "('t, 'x) builtins_scheme \<Rightarrow> pyval \<Rightarrow> pyval \<Rightarrow> pyval \<Rightarrow> pyval \<Rightarrow> axxon_object" where
  "Camera_from_display_id env node display_id channel stream =
     \<lparr>obj_class = Camera,
      obj_id = ''hosts/'' @ format_val env node @ ''/DeviceIpint.'' @ format_val env display_id
               @ ''/SourceEndpoint.video:'' @ format_val env channel @ '':''
               @ format_val env stream\<rparr>"

text \<open>\<open>Camera.video_source_id\<close>\<close>

definition video_source_id :: "axxon_object \<Rightarrow> string" where
  "video_source_id a = join ''/'' (drop 1 (split CHR ''/'' (obj_id a)))"

datatype TimeSortOrder = NEWER_FIRST | OLDER_FIRST

record 't interval =
  iv_begin :: 't
  iv_end :: 't

text \<open>One element of the list comprehension over \<open>data['intervals']\<close>.\<close>

definition parse_interval :: "('t, 'x) builtins_scheme \<Rightarrow> pyval \<Rightarrow> error + 't interval" where
  "parse_interval env i =
     (case getitem i ''begin'' of
        Inl e \<Rightarrow> Inl e
      | Inr b \<Rightarrow>
          (case ts_to_arrow env b of
             Inl e \<Rightarrow> Inl e
           | Inr b' \<Rightarrow>
               (case getitem i ''end'' of
                  Inl e \<Rightarrow> Inl e
                | Inr f \<Rightarrow>
                    (case ts_to_arrow env f of
                       Inl e \<Rightarrow> Inl e
                     | Inr f' \<Rightarrow> Inr \<lparr>iv_begin = b', iv_end = f'\<rparr>))))"

text \<open>
  \<open>WebHttpApi.get_arch_intervals(display_id, node, channel, stream, begin_time, end_time,
  limit, scale, sort_order)\<close>. The body does not use \<open>channel\<close> and \<open>stream\<close>, which are
  left out. An argument that is \<open>None\<close> is \<open>PNone\<close>, or \<open>None\<close> for the two instants.
\<close>

definition get_arch_intervals ::
  "('t::linorder, 'x) builtins_scheme \<Rightarrow> (request \<Rightarrow> response) \<Rightarrow> pyval \<Rightarrow> pyval \<Rightarrow>
   't option \<Rightarrow> 't option \<Rightarrow> pyval \<Rightarrow> pyval \<Rightarrow> TimeSortOrder \<Rightarrow>
   ('t interval list \<times> pyval) traced" where
  "get_arch_intervals env server display_id node begin_time end_time limit scale sort_order =
     bind_traced
       (if node = PNone then
          bind_traced (get_nodes server) (\<lambda>nodes.
          bind_traced (untraced (py_len nodes)) (\<lambda>n.
            if n \<noteq> 1 then
              untraced (Inl (PyException
                (''Cann't choose node name automatically: get_nodes() returns ''
                 @ format_val env nodes)))
            else untraced (py_first nodes)))
        else untraced (Inr node))
       (\<lambda>node.
     bind_traced (untraced (add_int_to_dict env Map.empty ''limit'' limit)) (\<lambda>params.
     bind_traced (untraced (add_int_to_dict env params ''scale'' scale)) (\<lambda>params.
       let end_time = (case end_time of None \<Rightarrow> ''future'' | Some t \<Rightarrow> arrow_to_ts env t);
           begin_time = (case begin_time of None \<Rightarrow> ''past'' | Some t \<Rightarrow> arrow_to_ts env t);
           cam = Camera_from_display_id env node display_id (PInt 0) (PInt 0)
       in
     bind_traced
       (WebHttpApi_get server
          (''/archive/contents/intervals/'' @ video_source_id cam @ ''/'' @ end_time
           @ ''/'' @ begin_time)
          params) (\<lambda>r.
     bind_traced (untraced (json r)) (\<lambda>data.
     bind_traced (untraced (getitem data ''intervals'')) (\<lambda>raw.
     bind_traced (untraced (py_iter raw)) (\<lambda>items.
     bind_traced (untraced (map_raising (parse_interval env) items)) (\<lambda>intervals.
     bind_traced (untraced (getitem data ''more'')) (\<lambda>more_flag.
       untraced (Inr (py_sorted iv_begin (sort_order = NEWER_FIRST) intervals, more_flag)))))))))))"

text \<open>The request that \<open>get_nodes\<close> issues.\<close>

definition hosts_request :: request where
  "hosts_request = \<lparr>req_path = ''/hosts'', req_params = Map.empty\<rparr>"

section \<open>Float arithmetic\<close>

fun fneg :: "pyfloat \<Rightarrow> pyfloat" where
  "fneg (Finite x) = Finite (- x)"
| "fneg PInf = NInf"
| "fneg NInf = PInf"
| "fneg NaN = NaN"

fun fadd :: "pyfloat \<Rightarrow> pyfloat \<Rightarrow> pyfloat" where
  "fadd NaN y = NaN"
| "fadd x NaN = NaN"
| "fadd (Finite a) (Finite b) = Finite (a + b)"
| "fadd PInf NInf = NaN"
| "fadd NInf PInf = NaN"
| "fadd PInf y = PInf"
| "fadd x PInf = PInf"
| "fadd NInf y = NInf"
| "fadd x NInf = NInf"

definition fsub :: "pyfloat \<Rightarrow> pyfloat \<Rightarrow> pyfloat" where
  "fsub x y = fadd x (fneg y)"

fun fmul :: "pyfloat \<Rightarrow> pyfloat \<Rightarrow> pyfloat" where
  "fmul NaN y = NaN"
| "fmul x NaN = NaN"
| "fmul (Finite a) (Finite b) = Finite (a * b)"
| "fmul (Finite a) PInf = (if a = 0 then NaN else if 0 < a then PInf else NInf)"
| "fmul (Finite a) NInf = (if a = 0 then NaN else if 0 < a then NInf else PInf)"
| "fmul PInf (Finite b) = (if b = 0 then NaN else if 0 < b then PInf else NInf)"
| "fmul NInf (Finite b) = (if b = 0 then NaN else if 0 < b then NInf else PInf)"
| "fmul PInf PInf = PInf"
| "fmul PInf NInf = NInf"
| "fmul NInf PInf = NInf"
| "fmul NInf NInf = PInf"

text \<open>\<open>x / y\<close> on floats raises \<open>ZeroDivisionError\<close> for a zero divisor, whatever \<open>x\<close> is.\<close>

fun fdiv :: "pyfloat \<Rightarrow> pyfloat \<Rightarrow> error + pyfloat" where
  "fdiv x (Finite b) =
     (if b = 0 then Inl ZeroDivisionError
      else (case x of
              Finite a \<Rightarrow> Inr (Finite (a / b))
            | PInf \<Rightarrow> Inr (if 0 < b then PInf else NInf)
            | NInf \<Rightarrow> Inr (if 0 < b then NInf else PInf)
            | NaN \<Rightarrow> Inr NaN))"
| "fdiv x NaN = Inr NaN"
| "fdiv NaN y = Inr NaN"
| "fdiv (Finite a) y = Inr (Finite 0)"
| "fdiv x y = Inr NaN"

text \<open>\<open>x < y\<close>: false whenever an operand is NaN.\<close>

fun flt :: "pyfloat \<Rightarrow> pyfloat \<Rightarrow> bool" where
  "flt NaN y = False"
| "flt x NaN = False"
| "flt (Finite a) (Finite b) = (a < b)"
| "flt x NInf = False"
| "flt NInf y = True"
| "flt PInf y = False"
| "flt x PInf = True"

text \<open>\<open>float(v)\<close>\<close>

fun py_float :: "('t, 'x) builtins_scheme \<Rightarrow> pyval \<Rightarrow> error + pyfloat" where
  "py_float env (PFloat x) = Inr x"
| "py_float env (PInt n) = Inr (Finite (of_int n))"
| "py_float env (PBool b) = Inr (Finite (if b then 1 else 0))"
| "py_float env (PStr s) = (case float_of_str env s of None \<Rightarrow> Inl ValueError | Some x \<Rightarrow> Inr x)"
| "py_float env PNone = Inl TypeError"
| "py_float env (PList xs) = Inl TypeError"
| "py_float env (PDict kvs) = Inl TypeError"

text \<open>\<open>v.get(key, None)\<close>: a method of dicts only.\<close>

fun dict_get :: "pyval \<Rightarrow> string \<Rightarrow> error + pyval" where
  "dict_get (PDict kvs) k = (case map_of kvs k of None \<Rightarrow> Inr PNone | Some v \<Rightarrow> Inr v)"
| "dict_get _ k = Inl AttributeError"

text \<open>\<open>v == n\<close> for an integer \<open>n\<close>: numbers are compared by value.\<close>

fun py_eq_int :: "pyval \<Rightarrow> int \<Rightarrow> bool" where
  "py_eq_int (PInt m) n = (m = n)"
| "py_eq_int (PFloat x) n = (x = Finite (of_int n))"
| "py_eq_int (PBool b) n = ((if b then 1 else 0) = n)"
| "py_eq_int _ n = False"

section \<open>Export of video\<close>

text \<open>
  \<open>WebHttpApi.export_video\<close> from the line \<open>sleep = 1\<close> on, for a call without a
  timeout: \<open>job_id\<close> is the \<open>Location\<close> header of the response to the export request.
  The server's answers to the successive status requests are a list; the loop takes one
  per turn.
\<close>

text \<open>The body of the \<open>try\<close> statement: the next sleep, or the exception it raises.\<close>

definition next_sleep :: "('t, 'x) builtins_scheme \<Rightarrow> pyval \<Rightarrow> pyfloat \<Rightarrow> error + pyfloat" where
  "next_sleep env resp_dict acc_sleep =
     (case getitem resp_dict ''progress'' of
        Inl e \<Rightarrow> Inl e
      | Inr v \<Rightarrow>
          (case py_float env v of
             Inl e \<Rightarrow> Inl e
           | Inr p \<Rightarrow>
               (case fdiv (fsub (Finite 1) p) p of
                  Inl e \<Rightarrow> Inl e
                | Inr x \<Rightarrow> fdiv (fmul x acc_sleep) (Finite 2))))"

text \<open>The \<open>finally\<close> clause: \<open>if sleep < 1 or sleep > 30: sleep = 1\<close>.\<close>

definition clamp_sleep :: "pyfloat \<Rightarrow> pyfloat" where
  "clamp_sleep sleep = (if flt sleep (Finite 1) \<or> flt (Finite 30) sleep then Finite 1 else sleep)"

text \<open>
  The \<open>while True\<close> loop. The result is the durations passed to \<open>time.sleep\<close>, in order,
  and how the loop ended: \<open>None\<close> when the answers ran out with the job in progress,
  an exception, or the \<open>resp_dict\<close> the \<open>break\<close> left with.
\<close>

fun poll_status ::
  "('t, 'x) builtins_scheme \<Rightarrow> string \<Rightarrow> response list \<Rightarrow> pyfloat \<Rightarrow> pyfloat \<Rightarrow>
   pyfloat list \<times> (error + pyval) option" where
  "poll_status env job_id [] sleep acc_sleep = ([], None)"
| "poll_status env job_id (r # rs) sleep acc_sleep =
     (if \<not> startswith (job_id @ ''/status'') ''/'' then ([], Some (Inl AssertionError))
      else
        (case WebHttpApi_check_for_error r of
           Inl e \<Rightarrow> ([], Some (Inl e))
         | Inr u \<Rightarrow>
             (case json r of
                Inl e \<Rightarrow> ([], Some (Inl e))
              | Inr resp_dict \<Rightarrow>
                  (case dict_get resp_dict ''state'' of
                     Inl e \<Rightarrow> ([], Some (Inl e))
                   | Inr st \<Rightarrow>
                       if \<not> py_eq_int st 1 then ([], Some (Inr resp_dict))
                       else
                         (let sleep1 = (case next_sleep env resp_dict acc_sleep of
                                          Inl e \<Rightarrow> sleep
                                        | Inr s \<Rightarrow> s);
                              sleep2 = clamp_sleep sleep1
                          in case getitem resp_dict ''progress'' of
                               Inl e \<Rightarrow> ([], Some (Inl e))
                             | Inr v \<Rightarrow>
                                 (case poll_status env job_id rs sleep2 (fadd acc_sleep sleep2) of
                                    (ds, out) \<Rightarrow> (sleep2 # ds, out)))))))"

text \<open>
  The loop over \<open>files\<close>: the files written, as path and content, and the paths returned
  or the exception raised. \<open>file_server\<close> answers the request for a file.
\<close>

fun download_files ::
  "('t, 'x) builtins_scheme \<Rightarrow> string \<Rightarrow> (string \<Rightarrow> response) \<Rightarrow> string \<Rightarrow> pyval list \<Rightarrow>
   (string \<times> string) list \<times> (error + string list)" where
  "download_files env job_id file_server save_dir [] = ([], Inr [])"
| "download_files env job_id file_server save_dir (file_name # fs) =
     (let path = job_id @ ''/file?name='' @ format_val env file_name in
      if \<not> startswith path ''/'' then ([], Inl AssertionError)
      else
        (let r = file_server path in
         case WebHttpApi_check_for_error r of
           Inl e \<Rightarrow> ([], Inl e)
         | Inr u \<Rightarrow>
             (case file_name of
                PStr n \<Rightarrow>
                  (let p = path_join env save_dir n in
                   case download_files env job_id file_server save_dir fs of
                     (ws, Inl e) \<Rightarrow> ((p, text_body r) # ws, Inl e)
                   | (ws, Inr ps) \<Rightarrow> ((p, text_body r) # ws, Inr (p # ps)))
              | _ \<Rightarrow> ([], Inl TypeError))))"

text \<open>What follows the loop, for the \<open>resp_dict\<close> it left with.\<close>

definition export_finish ::
  "('t, 'x) builtins_scheme \<Rightarrow> string \<Rightarrow> (string \<Rightarrow> response) \<Rightarrow> string \<Rightarrow> pyval \<Rightarrow>
   (string \<times> string) list \<times> (error + string list)" where
  "export_finish env job_id file_server save_dir resp_dict =
     (case getitem resp_dict ''state'' of
        Inl e \<Rightarrow> ([], Inl e)
      | Inr st \<Rightarrow>
          if st \<noteq> PInt 2 then
            (case getitem resp_dict ''error'' of
               Inl e \<Rightarrow> ([], Inl e)
             | Inr er \<Rightarrow>
                 (case getitem resp_dict ''progress'' of
                    Inl e \<Rightarrow> ([], Inl e)
                  | Inr pr \<Rightarrow>
                      ([], Inl (PyException
                         (''Error during export: \"'' @ format_val env er @ ''\" (code=''
                          @ format_val env st @ ''). Progress: '' @ format_val env pr @ ''.'')))))
          else
            (case getitem resp_dict ''files'' of
               Inl e \<Rightarrow> ([], Inl e)
             | Inr files \<Rightarrow>
                 (case py_iter files of
                    Inl e \<Rightarrow> ([], Inl e)
                  | Inr fs \<Rightarrow> download_files env job_id file_server save_dir fs)))"

record export_outcome =
  slept :: "pyfloat list"
  written :: "(string \<times> string) list"
  outcome :: "(error + string list) option"

definition export_video ::
  "('t, 'x) builtins_scheme \<Rightarrow> string \<Rightarrow> response list \<Rightarrow> (string \<Rightarrow> response) \<Rightarrow> string \<Rightarrow>
   export_outcome" where
  "export_video env job_id status_responses file_server save_dir =
     (case poll_status env job_id status_responses (Finite 1) (Finite 0) of
        (ds, None) \<Rightarrow> \<lparr>slept = ds, written = [], outcome = None\<rparr>
      | (ds, Some (Inl e)) \<Rightarrow> \<lparr>slept = ds, written = [], outcome = Some (Inl e)\<rparr>
      | (ds, Some (Inr resp_dict)) \<Rightarrow>
          (case export_finish env job_id file_server save_dir resp_dict of
             (ws, res) \<Rightarrow> \<lparr>slept = ds, written = ws, outcome = Some res\<rparr>))"

section \<open>An example environment and server\<close>

text \<open>
  Concrete values for the parameters, on which the operations are evaluated below: an
  environment whose instants are integers, and a server that answers \<open>/hosts\<close> with a
  given node list and every other request with two archive intervals.
\<close>

definition example_env :: "int builtins" where
  "example_env =
     \<lparr>int_of_str = (\<lambda>s. None),
      float_of_str = (\<lambda>s. None),
      format_val = (\<lambda>v. case v of
                          PStr s \<Rightarrow> s
                        | PInt n \<Rightarrow> (if 0 \<le> n \<and> n < 10 then [''0123456789'' ! nat n] else ''?'')
                        | PFloat x \<Rightarrow> (if x = Finite (1 / 2) then ''0.5'' else ''?'')
                        | _ \<Rightarrow> ''?''),
      arrow_to_ts = (\<lambda>t. ''20160101T000000.000''),
      ts_to_arrow = (\<lambda>v. case v of PInt n \<Rightarrow> Inr n | _ \<Rightarrow> Inl ValueError),
      path_join = (\<lambda>d f. d @ ''/'' @ f)\<rparr>"

definition example_intervals :: pyval where
  "example_intervals =
     PDict [(''intervals'',
             PList [PDict [(''begin'', PInt 10), (''end'', PInt 20)],
                    PDict [(''begin'', PInt 30), (''end'', PInt 40)]]),
            (''more'', PBool False)]"

definition example_server :: "pyval \<Rightarrow> request \<Rightarrow> response" where
  "example_server nodes q =
     (if req_path q = ''/hosts'' then
        \<lparr>status_code = 200, headers = [], text_body = [], json_body = Some nodes\<rparr>
      else
        \<lparr>status_code = 200, headers = [], text_body = [], json_body = Some example_intervals\<rparr>)"

text \<open>
  Answers to a status request: the job in progress with a given \<open>progress\<close>, and the
  job failed.
\<close>

definition in_progress :: "pyval \<Rightarrow> response" where
  "in_progress p =
     \<lparr>status_code = 200, headers = [], text_body = [],
      json_body = Some (PDict [(''state'', PInt 1), (''progress'', p)])\<rparr>"

definition export_failed :: response where
  "export_failed =
     \<lparr>status_code = 200, headers = [], text_body = [],
      json_body = Some (PDict [(''state'', PInt 3), (''error'', PStr ''disk failure''),
                               (''progress'', PFloat (Finite (1 / 2)))])\<rparr>"

section \<open>Properties\<close>

subsection \<open>String methods\<close>

lemma endswith_suffix: "endswith s suf \<longleftrightarrow> suffix suf s"
proof
  assume "endswith s suf"
  then have "s = take (length s - length suf) s @ suf"
    by (metis append_take_drop_id endswith_def)
  then show "suffix suf s"
    by (rule suffixI)
next
  assume "suffix suf s"
  then obtain zs where "s = zs @ suf"
    by (auto simp: suffix_def)
  then show "endswith s suf"
    by (simp add: endswith_def)
qed

lemma rindex_endswith:
  assumes "endswith s suf"
  shows "rindex s suf = Inr (length s - length suf)"
proof -
  from assms have len: "length suf \<le> length s"
    and tail: "drop (length s - length suf) s = suf"
    by (simp_all add: endswith_def)
  have "rev [0 ..< Suc (length s - length suf)] =
          (length s - length suf) # rev [0 ..< length s - length suf]"
    by simp
  with len tail show ?thesis
    by (simp add: rindex_def)
qed

subsection \<open>Detector id normalization\<close>

text \<open>
  Claim C8. An id ending in \<open>EventSupplier\<close> is stored unchanged; an id ending in
  \<open>SourceEndpoint.vmda\<close> is stored with that suffix replaced by \<open>EventSupplier\<close>, the
  original kept in the endpoint attribute; an id ending in neither makes the
  constructor raise. Hence every constructed Detector has an id ending in
  \<open>EventSupplier\<close>.
\<close>

theorem Detector_init_normalizes:
  "(endswith i ''EventSupplier'' \<longrightarrow>
      (\<exists>d. Detector_init i camera name = Inr d \<and> obj_id d = i \<and> det_endpoint d = None))
   \<and> (\<forall>pre. i = pre @ ''SourceEndpoint.vmda'' \<longrightarrow>
      (\<exists>d. Detector_init i camera name = Inr d \<and> obj_id d = pre @ ''EventSupplier''
           \<and> det_endpoint d = Some i))
   \<and> (\<not> endswith i ''EventSupplier'' \<and> \<not> endswith i ''SourceEndpoint.vmda'' \<longrightarrow>
      Detector_init i camera name = Inl BareRaise)
   \<and> (\<forall>d. Detector_init i camera name = Inr d \<longrightarrow> endswith (obj_id d) ''EventSupplier'')"
proof (intro conjI allI impI)
  assume "endswith i ''EventSupplier''"
  then show "\<exists>d. Detector_init i camera name = Inr d \<and> obj_id d = i \<and> det_endpoint d = None"
    by (simp add: Detector_init_def)
next
  fix pre
  assume i: "i = pre @ ''SourceEndpoint.vmda''"
  then have e: "endswith i ''SourceEndpoint.vmda''"
    by (simp add: endswith_def)
  have ne: "\<not> endswith i ''EventSupplier''"
    using i by (simp add: endswith_def)
  have "rindex i ''SourceEndpoint.vmda'' = Inr (length pre)"
    using rindex_endswith [OF e] i by simp
  with e ne i
  show "\<exists>d. Detector_init i camera name = Inr d \<and> obj_id d = pre @ ''EventSupplier''
           \<and> det_endpoint d = Some i"
    by (simp add: Detector_init_def)
next
  assume "\<not> endswith i ''EventSupplier'' \<and> \<not> endswith i ''SourceEndpoint.vmda''"
  then show "Detector_init i camera name = Inl BareRaise"
    by (simp add: Detector_init_def)
next
  fix d
  assume d: "Detector_init i camera name = Inr d"
  show "endswith (obj_id d) ''EventSupplier''"
  proof (cases "endswith i ''EventSupplier''")
    case True
    with d show ?thesis
      by (auto simp: Detector_init_def)
  next
    case False
    with d obtain k where "obj_id d = take k i @ ''EventSupplier''"
      by (auto simp: Detector_init_def split: if_splits sum.splits)
    then show ?thesis
      by (simp add: endswith_def)
  qed
qed

theorem Detector_init_normalizes_witness:
  "endswith ''hosts/S/AVDetector.1/EventSupplier'' ''EventSupplier''
   \<and> (\<exists>d. Detector_init ''hosts/S/AVDetector.1/EventSupplier''
              \<lparr>obj_class = Camera, obj_id = ''hosts/S/DeviceIpint.1''\<rparr> None = Inr d
          \<and> obj_id d = ''hosts/S/AVDetector.1/EventSupplier'' \<and> det_endpoint d = None)
   \<and> (\<exists>d. Detector_init ''hosts/S/AVDetector.1/SourceEndpoint.vmda''
              \<lparr>obj_class = Camera, obj_id = ''hosts/S/DeviceIpint.1''\<rparr> None = Inr d
          \<and> obj_id d = ''hosts/S/AVDetector.1/EventSupplier''
          \<and> det_endpoint d = Some ''hosts/S/AVDetector.1/SourceEndpoint.vmda'')
   \<and> \<not> endswith ''hosts/S/AVDetector.1'' ''EventSupplier''
   \<and> \<not> endswith ''hosts/S/AVDetector.1'' ''SourceEndpoint.vmda''
   \<and> Detector_init ''hosts/S/AVDetector.1''
         \<lparr>obj_class = Camera, obj_id = ''hosts/S/DeviceIpint.1''\<rparr> None = Inl BareRaise"
proof -
  let ?cam = "\<lparr>obj_class = Camera, obj_id = ''hosts/S/DeviceIpint.1''\<rparr>"
  have h1: "endswith ''hosts/S/AVDetector.1/EventSupplier'' ''EventSupplier''"
    by (simp add: endswith_def)
  have h2: "''hosts/S/AVDetector.1/SourceEndpoint.vmda'' =
              ''hosts/S/AVDetector.1/'' @ ''SourceEndpoint.vmda''"
    by simp
  have h3: "\<not> endswith ''hosts/S/AVDetector.1'' ''EventSupplier''
            \<and> \<not> endswith ''hosts/S/AVDetector.1'' ''SourceEndpoint.vmda''"
    by (simp add: endswith_def)
  from h1 Detector_init_normalizes [of "''hosts/S/AVDetector.1/EventSupplier''" ?cam None]
  have c1: "\<exists>d. Detector_init ''hosts/S/AVDetector.1/EventSupplier'' ?cam None = Inr d
          \<and> obj_id d = ''hosts/S/AVDetector.1/EventSupplier'' \<and> det_endpoint d = None"
    by blast
  from h2 Detector_init_normalizes [of "''hosts/S/AVDetector.1/SourceEndpoint.vmda''" ?cam None]
  have "\<exists>d. Detector_init ''hosts/S/AVDetector.1/SourceEndpoint.vmda'' ?cam None = Inr d
          \<and> obj_id d = ''hosts/S/AVDetector.1/'' @ ''EventSupplier''
          \<and> det_endpoint d = Some ''hosts/S/AVDetector.1/SourceEndpoint.vmda''"
    by blast
  then have c2: "\<exists>d. Detector_init ''hosts/S/AVDetector.1/SourceEndpoint.vmda'' ?cam None = Inr d
          \<and> obj_id d = ''hosts/S/AVDetector.1/EventSupplier''
          \<and> det_endpoint d = Some ''hosts/S/AVDetector.1/SourceEndpoint.vmda''"
    by simp
  from h3 Detector_init_normalizes [of "''hosts/S/AVDetector.1''" ?cam None]
  have c3: "Detector_init ''hosts/S/AVDetector.1'' ?cam None = Inl BareRaise"
    by blast
  from h1 c1 c2 h3 c3 show ?thesis
    by blast
qed

subsection \<open>Create-via-diff\<close>





subsection \<open>Error checking of the management server's responses\<close>

text \<open>
  Claim C2. For a response whose JSON body has \<open>Result\<close> equal to \<open>Success\<close>, nothing is
  raised. For a response whose \<open>Result\<close> differs from \<open>Success\<close>, an \<open>RSGServerError\<close> is
  raised when its \<open>Message\<close> is not one of the ignored messages, and nothing is raised
  when it is one of them.
\<close>

theorem RsgHttpApi_check_for_error_policy:
  "(json r = Inr j \<and> getitem j ''Result'' = Inr (PStr ''Success'') \<longrightarrow>
      RsgHttpApi_check_for_error r = Inr ())
   \<and> (json r = Inr j \<and> getitem j ''Result'' = Inr res \<and> res \<noteq> PStr ''Success''
        \<and> getitem j ''Message'' = Inr m \<and> m \<notin> set ignored_messages \<longrightarrow>
      RsgHttpApi_check_for_error r = Inl (RSGServerError r j))
   \<and> (json r = Inr j \<and> getitem j ''Result'' = Inr res \<and> res \<noteq> PStr ''Success''
        \<and> getitem j ''Message'' = Inr m \<and> m \<in> set ignored_messages \<longrightarrow>
      RsgHttpApi_check_for_error r = Inr ())"
  by (simp add: RsgHttpApi_check_for_error_def)

theorem RsgHttpApi_check_for_error_policy_witness:
  "RsgHttpApi_check_for_error
     \<lparr>status_code = 200, headers = [], text_body = [],
      json_body = Some (PDict [(''Result'', PStr ''Success''), (''Message'', PStr ''''), (''Data'', PList [])])\<rparr>
     = Inr ()
   \<and> RsgHttpApi_check_for_error
     \<lparr>status_code = 200, headers = [], text_body = [],
      json_body = Some (PDict [(''Result'', PStr ''Failed''), (''Message'', PStr ''No such camera'')])\<rparr>
     = Inl (RSGServerError
         \<lparr>status_code = 200, headers = [], text_body = [],
          json_body = Some (PDict [(''Result'', PStr ''Failed''), (''Message'', PStr ''No such camera'')])\<rparr>
         (PDict [(''Result'', PStr ''Failed''), (''Message'', PStr ''No such camera'')]))
   \<and> RsgHttpApi_check_for_error
     \<lparr>status_code = 200, headers = [], text_body = [],
      json_body = Some (PDict [(''Result'', PStr ''Failed''),
                               (''Message'', PStr ''Can't find objects to delete'')])\<rparr>
     = Inr ()"
proof -
  let ?j1 = "PDict [(''Result'', PStr ''Success''), (''Message'', PStr ''''), (''Data'', PList [])]"
  let ?j2 = "PDict [(''Result'', PStr ''Failed''), (''Message'', PStr ''No such camera'')]"
  let ?j3 = "PDict [(''Result'', PStr ''Failed''), (''Message'', PStr ''Can't find objects to delete'')]"
  let ?r1 = "\<lparr>status_code = 200, headers = [], text_body = [], json_body = Some ?j1\<rparr>"
  let ?r2 = "\<lparr>status_code = 200, headers = [], text_body = [], json_body = Some ?j2\<rparr>"
  let ?r3 = "\<lparr>status_code = 200, headers = [], text_body = [], json_body = Some ?j3\<rparr>"
  have h1: "json ?r1 = Inr ?j1 \<and> getitem ?j1 ''Result'' = Inr (PStr ''Success'')"
    by (simp add: json_def)
  have h2: "json ?r2 = Inr ?j2 \<and> getitem ?j2 ''Result'' = Inr (PStr ''Failed'')
            \<and> PStr ''Failed'' \<noteq> PStr ''Success''
            \<and> getitem ?j2 ''Message'' = Inr (PStr ''No such camera'')
            \<and> PStr ''No such camera'' \<notin> set ignored_messages"
    by (simp add: json_def ignored_messages_def)
  have h3: "json ?r3 = Inr ?j3 \<and> getitem ?j3 ''Result'' = Inr (PStr ''Failed'')
            \<and> PStr ''Failed'' \<noteq> PStr ''Success''
            \<and> getitem ?j3 ''Message'' = Inr (PStr ''Can't find objects to delete'')
            \<and> PStr ''Can't find objects to delete'' \<in> set ignored_messages"
    by (simp add: json_def ignored_messages_def)
  from h1 RsgHttpApi_check_for_error_policy [of ?r1 ?j1]
  have c1: "RsgHttpApi_check_for_error ?r1 = Inr ()"
    by blast
  from h2 RsgHttpApi_check_for_error_policy
            [of ?r2 ?j2 "PStr ''Failed''" "PStr ''No such camera''"]
  have c2: "RsgHttpApi_check_for_error ?r2 = Inl (RSGServerError ?r2 ?j2)"
    by blast
  from h3 RsgHttpApi_check_for_error_policy
            [of ?r3 ?j3 "PStr ''Failed''" "PStr ''Can't find objects to delete''"]
  have c3: "RsgHttpApi_check_for_error ?r3 = Inr ()"
    by blast
  from c1 c2 c3 show ?thesis
    by blast
qed

subsection \<open>Error checking of the web server's responses\<close>

text \<open>
  Claim C5, as amended. A response with a status code from 400 to 599 makes
  \<open>WebHttpApi.check_for_error\<close> raise a \<open>ServerError\<close> formatted from the response (with
  its JSON body, or the empty dict when the body is not JSON); any other status code,
  so every 2xx code and also every 1xx and 3xx code, raises nothing.
\<close>

theorem WebHttpApi_check_for_error_status:
  "(400 \<le> status_code r \<and> status_code r < 600 \<longrightarrow>
      WebHttpApi_check_for_error r =
        Inl (ServerError r (case json_body r of None \<Rightarrow> PDict [] | Some j \<Rightarrow> j)))
   \<and> (\<not> (400 \<le> status_code r \<and> status_code r < 600) \<longrightarrow>
      WebHttpApi_check_for_error r = Inr ())
   \<and> (200 \<le> status_code r \<and> status_code r < 300 \<longrightarrow>
      WebHttpApi_check_for_error r = Inr ())"
  by (simp add: WebHttpApi_check_for_error_def raise_for_status_def json_def
      split: option.splits)

theorem WebHttpApi_check_for_error_status_witness:
  "WebHttpApi_check_for_error
     \<lparr>status_code = 404, headers = [], text_body = ''Not Found'', json_body = None\<rparr>
     = Inl (ServerError
         \<lparr>status_code = 404, headers = [], text_body = ''Not Found'', json_body = None\<rparr>
         (PDict []))
   \<and> WebHttpApi_check_for_error
     \<lparr>status_code = 302, headers = [], text_body = [], json_body = None\<rparr> = Inr ()
   \<and> WebHttpApi_check_for_error
     \<lparr>status_code = 200, headers = [], text_body = [], json_body = None\<rparr> = Inr ()"
proof -
  let ?r1 = "\<lparr>status_code = 404, headers = [], text_body = ''Not Found'', json_body = None\<rparr>"
  let ?r2 = "\<lparr>status_code = 302, headers = [], text_body = [], json_body = None\<rparr>"
  let ?r3 = "\<lparr>status_code = 200, headers = [], text_body = [], json_body = None\<rparr>"
  have h1: "400 \<le> status_code ?r1 \<and> status_code ?r1 < 600"
    by simp
  have h2: "\<not> (400 \<le> status_code ?r2 \<and> status_code ?r2 < 600)"
    by simp
  have h3: "200 \<le> status_code ?r3 \<and> status_code ?r3 < 300"
    by simp
  from h1 WebHttpApi_check_for_error_status [of ?r1]
  have c1: "WebHttpApi_check_for_error ?r1 = Inl (ServerError ?r1 (PDict []))"
    by simp
  from h2 WebHttpApi_check_for_error_status [of ?r2]
  have c2: "WebHttpApi_check_for_error ?r2 = Inr ()"
    by blast
  from h3 WebHttpApi_check_for_error_status [of ?r3]
  have c3: "WebHttpApi_check_for_error ?r3 = Inr ()"
    by blast
  from c1 c2 c3 show ?thesis
    by blast
qed

text \<open>
  The claim as it was stated fails for a status code outside 2xx that is no error code:
  304 is not in the 2xx range and nothing is raised.
\<close>

theorem WebHttpApi_check_for_error_304_counterexample:
  "\<not> (200 \<le> (304::int) \<and> (304::int) < 300)
   \<and> WebHttpApi_check_for_error
       \<lparr>status_code = 304, headers = [], text_body = [], json_body = None\<rparr> = Inr ()"
  by (simp add: WebHttpApi_check_for_error_def raise_for_status_def)

subsection \<open>Equality and hashing of domain objects\<close>

lemma lt16: "(a::nat) < 16 \<Longrightarrow> a \<in> {0,1,2,3,4,5,6,7,8,9,10,11,12,13,14,15}"
  by simp arith

lemma hexdigit_inj: "a < 16 \<Longrightarrow> b < 16 \<Longrightarrow> hexdigit a = hexdigit b \<Longrightarrow> a = b"
  using lt16 [of a] lt16 [of b] by (auto simp: hexdigit_def)

lemma hexdigit_not_special: "a < 16 \<Longrightarrow> hexdigit a \<noteq> CHR 0x5C \<and> hexdigit a \<noteq> CHR 0x27 \<and> hexdigit a \<noteq> CHR 0x22"
  using lt16 [of a] by (auto simp: hexdigit_def)

lemma hex2_inj:
  assumes "hexdigit (of_char c div 16) = hexdigit (of_char c' div 16)"
    and "hexdigit (of_char c mod 16) = hexdigit (of_char c' mod 16)"
  shows "c = c'"
proof -
  have b: "(of_char c :: nat) < 256" "(of_char c' :: nat) < 256"
    by (simp_all)
  then have "(of_char c :: nat) div 16 < 16" "(of_char c' :: nat) div 16 < 16"
    by (simp_all add: less_mult_imp_div_less)
  with assms(1) have d: "(of_char c :: nat) div 16 = of_char c' div 16"
    by (blast intro: hexdigit_inj)
  have "(of_char c :: nat) mod 16 < 16" "(of_char c' :: nat) mod 16 < 16"
    by simp_all
  with assms(2) have m: "(of_char c :: nat) mod 16 = of_char c' mod 16"
    by (blast intro: hexdigit_inj)
  from d m have "(of_char c :: nat) = of_char c'"
    by (metis div_mult_mod_eq)
  then show ?thesis
    by simp
qed

lemma repr_char_prefix_free:
  assumes "repr_char q c @ r = repr_char q c' @ r'"
    and "q = CHR 0x27 \<or> q = CHR 0x22"
  shows "c = c' \<and> r = r'"
  using assms hex2_inj [of c c']
  by (auto simp: repr_char_def split: if_splits)

lemma repr_char_nonempty: "repr_char q c \<noteq> []"
  by (simp add: repr_char_def)

lemma repr_body_inj:
  assumes "q = CHR 0x27 \<or> q = CHR 0x22"
  shows "concat (map (repr_char q) s) = concat (map (repr_char q) s') \<Longrightarrow> s = s'"
proof (induction s arbitrary: s')
  case Nil
  then show ?case
    by (cases s') (simp_all add: repr_char_nonempty)
next
  case (Cons c s)
  show ?case
  proof (cases s')
    case Nil
    with Cons.prems show ?thesis
      by (simp add: repr_char_nonempty)
  next
    case (Cons c' t)
    with Cons.prems
    have "repr_char q c @ concat (map (repr_char q) s) =
          repr_char q c' @ concat (map (repr_char q) t)"
      by simp
    from repr_char_prefix_free [OF this assms]
    have "c = c'" and "concat (map (repr_char q) s) = concat (map (repr_char q) t)"
      by simp_all
    with Cons.IH Cons show ?thesis
      by simp
  qed
qed

lemma repr_quote_cases: "repr_quote s = CHR 0x27 \<or> repr_quote s = CHR 0x22"
  by (simp add: repr_quote_def)

lemma repr_inj: "repr s = repr s' \<Longrightarrow> s = s'"
proof -
  assume eq: "repr s = repr s'"
  then have q: "repr_quote s = repr_quote s'"
    by (simp add: repr_def)
  with eq have "concat (map (repr_char (repr_quote s)) s) =
                concat (map (repr_char (repr_quote s)) s')"
    by (simp add: repr_def)
  then show "s = s'"
    by (rule repr_body_inj [OF repr_quote_cases])
qed

lemma type_name_no_quote: "CHR 0x27 \<notin> set (type_name t) \<and> CHR 0x22 \<notin> set (type_name t)"
  by (cases t) simp_all

lemma type_name_inj: "type_name t = type_name t' \<Longrightarrow> t = t'"
  by (cases t; cases t') simp_all

lemma takeWhile_type_name:
  "takeWhile (\<lambda>c. c \<noteq> CHR 0x27 \<and> c \<noteq> CHR 0x22) (type_name t @ repr s) = type_name t"
proof -
  have "\<forall>c \<in> set (type_name t). c \<noteq> CHR 0x27 \<and> c \<noteq> CHR 0x22"
    using type_name_no_quote [of t] by auto
  moreover have "\<not> (hd (repr s) \<noteq> CHR 0x27 \<and> hd (repr s) \<noteq> CHR 0x22)"
    using repr_quote_cases [of s] by (auto simp: repr_def)
  moreover have "repr s \<noteq> []"
    by (simp add: repr_def)
  ultimately show ?thesis
    by (cases "repr s") (simp_all add: takeWhile_append2)
qed

lemma hash_key_inj:
  assumes "hash_key a = hash_key b"
  shows "obj_class a = obj_class b \<and> obj_id a = obj_id b"
proof -
  from assms have eq: "type_name (obj_class a) @ repr (obj_id a) =
                       type_name (obj_class b) @ repr (obj_id b)"
    by (simp add: hash_key_def)
  then have "takeWhile (\<lambda>c. c \<noteq> CHR 0x27 \<and> c \<noteq> CHR 0x22) (type_name (obj_class a) @ repr (obj_id a)) =
             takeWhile (\<lambda>c. c \<noteq> CHR 0x27 \<and> c \<noteq> CHR 0x22) (type_name (obj_class b) @ repr (obj_id b))"
    by simp
  then have tn: "type_name (obj_class a) = type_name (obj_class b)"
    by (simp only: takeWhile_type_name)
  with eq have "repr (obj_id a) = repr (obj_id b)"
    by simp
  with tn show ?thesis
    by (simp add: type_name_inj repr_inj)
qed

text \<open>
  Whatever the builtin hash is: \<open>a == b\<close> holds exactly when \<open>hash(a) == hash(b)\<close>, the
  hash being the builtin hash of the type name followed by \<open>repr(id)\<close>. Two objects of
  the same type with equal ids have equal hashes and are equal. That string determines
  the type and the id, so \<open>a == b\<close> holds only for objects of the same type and id
  where the builtin hash does not collide on the two strings.
\<close>

theorem AxxonObject_eq_hash:
  "(AxxonObject_eq h a b \<longleftrightarrow> AxxonObject_hash h a = AxxonObject_hash h b)
   \<and> (obj_class a = obj_class b \<and> obj_id a = obj_id b \<longrightarrow>
        AxxonObject_eq h a b \<and> AxxonObject_hash h a = AxxonObject_hash h b)
   \<and> ((h (hash_key a) = h (hash_key b) \<longrightarrow> hash_key a = hash_key b) \<longrightarrow>
        (AxxonObject_eq h a b \<longleftrightarrow> obj_class a = obj_class b \<and> obj_id a = obj_id b))"
proof (intro conjI impI)
  show "AxxonObject_eq h a b \<longleftrightarrow> AxxonObject_hash h a = AxxonObject_hash h b"
    by (simp add: AxxonObject_eq_def)
next
  assume "obj_class a = obj_class b \<and> obj_id a = obj_id b"
  then have "hash_key a = hash_key b"
    by (simp add: hash_key_def)
  then show "AxxonObject_eq h a b" "AxxonObject_hash h a = AxxonObject_hash h b"
    by (simp_all add: AxxonObject_eq_def AxxonObject_hash_def)
next
  assume free: "h (hash_key a) = h (hash_key b) \<longrightarrow> hash_key a = hash_key b"
  show "AxxonObject_eq h a b \<longleftrightarrow> obj_class a = obj_class b \<and> obj_id a = obj_id b"
  proof
    assume "AxxonObject_eq h a b"
    with free have "hash_key a = hash_key b"
      by (simp add: AxxonObject_eq_def AxxonObject_hash_def)
    then show "obj_class a = obj_class b \<and> obj_id a = obj_id b"
      by (rule hash_key_inj)
  next
    assume "obj_class a = obj_class b \<and> obj_id a = obj_id b"
    then have "hash_key a = hash_key b"
      by (simp add: hash_key_def)
    then show "AxxonObject_eq h a b"
      by (simp add: AxxonObject_eq_def AxxonObject_hash_def)
  qed
qed

theorem AxxonObject_eq_hash_witness:
  "AxxonObject_eq (\<lambda>s. word_of_nat (length s) :: 32 word)
      \<lparr>obj_class = Camera, obj_id = ''hosts/N/DeviceIpint.1''\<rparr>
      \<lparr>obj_class = Camera, obj_id = ''hosts/N/DeviceIpint.1''\<rparr>
   \<and> AxxonObject_hash (\<lambda>s. word_of_nat (length s) :: 32 word)
      \<lparr>obj_class = Camera, obj_id = ''hosts/N/DeviceIpint.1''\<rparr> = 29
   \<and> \<not> AxxonObject_eq (\<lambda>s. word_of_nat (length s) :: 32 word)
      \<lparr>obj_class = Camera, obj_id = ''hosts/N/DeviceIpint.1''\<rparr>
      \<lparr>obj_class = Archive, obj_id = ''hosts/N/DeviceIpint.1''\<rparr>"
proof -
  let ?h = "\<lambda>s. word_of_nat (length s) :: 32 word"
  let ?a = "\<lparr>obj_class = Camera, obj_id = ''hosts/N/DeviceIpint.1''\<rparr>"
  let ?b = "\<lparr>obj_class = Archive, obj_id = ''hosts/N/DeviceIpint.1''\<rparr>"
  have h1: "obj_class ?a = obj_class ?a \<and> obj_id ?a = obj_id ?a"
    by simp
  have k: "?h (hash_key ?a) = 29" "?h (hash_key ?b) = 30"
    by (simp_all add: hash_key_def repr_def repr_quote_def repr_char_def)
  then have h2: "?h (hash_key ?a) = ?h (hash_key ?b) \<longrightarrow> hash_key ?a = hash_key ?b"
    by simp
  have h3: "\<not> (obj_class ?a = obj_class ?b \<and> obj_id ?a = obj_id ?b)"
    by simp
  from h1 AxxonObject_eq_hash [of ?h ?a ?a]
  have c1: "AxxonObject_eq ?h ?a ?a"
    by blast
  from h2 h3 AxxonObject_eq_hash [of ?h ?a ?b]
  have c2: "\<not> AxxonObject_eq ?h ?a ?b"
    by blast
  from k have c3: "AxxonObject_hash ?h ?a = 29"
    by (simp only: AxxonObject_hash_def)
  from c1 c2 c3 show ?thesis
    by blast
qed

lemmas hash_eval = AxxonObject_eq_def AxxonObject_hash_def hash_key_def repr_def repr_quote_def
  repr_char_def string_hash_def

text \<open>
  The model of the builtin hash gives the values CPython 2.7 is known to give: on 64
  bits \<open>hash('a')\<close> is 12416037344 and \<open>hash('abc')\<close> is 1453079729188098211, on 32 bits
  they are -468864544 and -1600925533.
\<close>

lemma string_hash_known_values:
  "(string_hash ''a'' :: 64 word) = 12416037344"
  "(string_hash ''abc'' :: 64 word) = 1453079729188098211"
  "sint (string_hash ''a'' :: 32 word) = - 468864544"
  "sint (string_hash ''abc'' :: 32 word) = - 1600925533"
  by (simp_all add: string_hash_def)

lemma hash_node_7F7L35DIELBRI:
  "AxxonObject_hash (string_hash :: string \<Rightarrow> 64 word)
     \<lparr>obj_class = Camera,
      obj_id = ''hosts/7F7L35DIELBRI/DeviceIpint.1/SourceEndpoint.video:0:0''\<rparr>
   = 9059392328287954210"
  by (simp add: hash_eval)

lemma hash_node_YGMDVBQCLCQAG:
  "AxxonObject_hash (string_hash :: string \<Rightarrow> 64 word)
     \<lparr>obj_class = Camera,
      obj_id = ''hosts/YGMDVBQCLCQAG/DeviceIpint.1/SourceEndpoint.video:0:0''\<rparr>
   = 9059392328287954210"
  by (simp add: hash_eval)

lemma hash_camera_62989:
  "sint (AxxonObject_hash (string_hash :: string \<Rightarrow> 32 word)
     \<lparr>obj_class = Camera,
      obj_id = ''hosts/SERVER/DeviceIpint.62989/SourceEndpoint.video:0:0''\<rparr>)
   = - 1914365034"
  by (simp add: hash_eval)

lemma hash_camera_223099:
  "sint (AxxonObject_hash (string_hash :: string \<Rightarrow> 32 word)
     \<lparr>obj_class = Camera,
      obj_id = ''hosts/SERVER/DeviceIpint.223099/SourceEndpoint.video:0:0''\<rparr>)
   = - 1914365034"
  by (simp add: hash_eval)

text \<open>
  Claim C6 says that \<open>a == b\<close> holds only for objects of the same type with equal ids.
  The code breaks it where the builtin hash of the interpreter collides. With a \<open>long\<close>
  of 64 bits the cameras of the nodes \<open>7F7L35DIELBRI\<close> and \<open>YGMDVBQCLCQAG\<close> have the same
  hash, 9059392328287954210; with a \<open>long\<close> of 32 bits the cameras 62989 and 223099 of
  the node \<open>SERVER\<close> have the same hash, -1914365034. In each pair \<open>__eq__\<close> answers that
  the two cameras are equal, and their ids differ.
\<close>

theorem AxxonObject_eq_collision:
  "AxxonObject_eq (string_hash :: string \<Rightarrow> 64 word)
     \<lparr>obj_class = Camera,
      obj_id = ''hosts/7F7L35DIELBRI/DeviceIpint.1/SourceEndpoint.video:0:0''\<rparr>
     \<lparr>obj_class = Camera,
      obj_id = ''hosts/YGMDVBQCLCQAG/DeviceIpint.1/SourceEndpoint.video:0:0''\<rparr>
   \<and> ''hosts/7F7L35DIELBRI/DeviceIpint.1/SourceEndpoint.video:0:0''
       \<noteq> ''hosts/YGMDVBQCLCQAG/DeviceIpint.1/SourceEndpoint.video:0:0''
   \<and> AxxonObject_eq (string_hash :: string \<Rightarrow> 32 word)
     \<lparr>obj_class = Camera,
      obj_id = ''hosts/SERVER/DeviceIpint.62989/SourceEndpoint.video:0:0''\<rparr>
     \<lparr>obj_class = Camera,
      obj_id = ''hosts/SERVER/DeviceIpint.223099/SourceEndpoint.video:0:0''\<rparr>
   \<and> ''hosts/SERVER/DeviceIpint.62989/SourceEndpoint.video:0:0''
       \<noteq> ''hosts/SERVER/DeviceIpint.223099/SourceEndpoint.video:0:0''"
proof -
  have "sint (AxxonObject_hash (string_hash :: string \<Rightarrow> 32 word)
          \<lparr>obj_class = Camera,
           obj_id = ''hosts/SERVER/DeviceIpint.62989/SourceEndpoint.video:0:0''\<rparr>)
      = sint (AxxonObject_hash (string_hash :: string \<Rightarrow> 32 word)
          \<lparr>obj_class = Camera,
           obj_id = ''hosts/SERVER/DeviceIpint.223099/SourceEndpoint.video:0:0''\<rparr>)"
    by (simp only: hash_camera_62989 hash_camera_223099)
  then have "AxxonObject_eq (string_hash :: string \<Rightarrow> 32 word)
     \<lparr>obj_class = Camera,
      obj_id = ''hosts/SERVER/DeviceIpint.62989/SourceEndpoint.video:0:0''\<rparr>
     \<lparr>obj_class = Camera,
      obj_id = ''hosts/SERVER/DeviceIpint.223099/SourceEndpoint.video:0:0''\<rparr>"
    unfolding AxxonObject_eq_def by (rule signed_word_eqI)
  moreover have "AxxonObject_eq (string_hash :: string \<Rightarrow> 64 word)
     \<lparr>obj_class = Camera,
      obj_id = ''hosts/7F7L35DIELBRI/DeviceIpint.1/SourceEndpoint.video:0:0''\<rparr>
     \<lparr>obj_class = Camera,
      obj_id = ''hosts/YGMDVBQCLCQAG/DeviceIpint.1/SourceEndpoint.video:0:0''\<rparr>"
    by (simp only: AxxonObject_eq_def hash_node_7F7L35DIELBRI hash_node_YGMDVBQCLCQAG)
  ultimately show ?thesis
    by simp
qed

subsection \<open>Archive interval query\<close>

lemma bind_traced_InrE:
  assumes "bind_traced m f = (tr, Inr y)"
  obtains tr1 x tr2 where "m = (tr1, Inr x)" "f x = (tr2, Inr y)" "tr = tr1 @ tr2"
  using assms by (auto simp: bind_traced_def split: prod.splits sum.splits)

lemma untraced_eq: "untraced x = (tr, y) \<longleftrightarrow> tr = [] \<and> y = x"
  by (auto simp: untraced_def)

lemma get_arch_intervals_result:
  assumes "get_arch_intervals env server display_id node begin_time end_time limit scale sort_order
             = (tr, Inr (ivs, more_flag))"
  shows "\<exists>xs. ivs = py_sorted iv_begin (sort_order = NEWER_FIRST) xs"
  using assms unfolding get_arch_intervals_def Let_def
  by (auto elim!: bind_traced_InrE simp: untraced_eq)

lemma py_sorted_ascending: "sorted (map key (py_sorted key False xs))"
  by (simp add: py_sorted_def)

lemma py_sorted_descending: "sorted_wrt (\<lambda>x y. y \<le> x) (map key (py_sorted key True xs))"
proof -
  have "sorted (map key (sort_key key (rev xs)))"
    by simp
  then have "sorted_wrt (\<lambda>x y. y \<le> x) (rev (map key (sort_key key (rev xs))))"
    by (simp add: sorted_wrt_rev)
  then show ?thesis
    by (simp add: py_sorted_def rev_map)
qed

text \<open>
  Claim C4. For every list of intervals that \<open>get_arch_intervals\<close> returns, the begin
  times are non-increasing when \<open>sort_order\<close> is \<open>NEWER_FIRST\<close> and non-decreasing when
  it is \<open>OLDER_FIRST\<close>.
\<close>

theorem get_arch_intervals_sorted:
  assumes "get_arch_intervals env server display_id node begin_time end_time limit scale sort_order
             = (tr, Inr (ivs, more_flag))"
  shows "(sort_order = NEWER_FIRST \<longrightarrow> sorted_wrt (\<lambda>x y. y \<le> x) (map iv_begin ivs))
       \<and> (sort_order = OLDER_FIRST \<longrightarrow> sorted_wrt (\<lambda>x y. x \<le> y) (map iv_begin ivs))"
proof -
  from get_arch_intervals_result [OF assms]
  obtain xs where ivs: "ivs = py_sorted iv_begin (sort_order = NEWER_FIRST) xs"
    by blast
  show ?thesis
  proof (cases sort_order)
    case NEWER_FIRST
    with ivs show ?thesis
      by (simp add: py_sorted_descending)
  next
    case OLDER_FIRST
    with ivs py_sorted_ascending [of iv_begin xs] show ?thesis
      by simp
  qed
qed

lemma fst_bind_untraced:
  "fst (bind_traced (untraced x) f) = (case x of Inl e \<Rightarrow> [] | Inr v \<Rightarrow> fst (f v))"
  by (auto simp: bind_traced_def untraced_def split: sum.splits prod.splits)

lemma fst_untraced: "fst (untraced x) = []"
  by (simp add: untraced_def)

lemma WebHttpApi_get_trace:
  "q \<in> set (fst (WebHttpApi_get server path params)) \<Longrightarrow>
     q = \<lparr>req_path = path, req_params = params\<rparr>"
  by (auto simp: WebHttpApi_get_def Let_def split: if_splits sum.splits)

lemma set_fst_bind_traced:
  "set (fst (bind_traced m f)) \<subseteq> set (fst m) \<union> (\<Union>x. set (fst (f x)))"
  by (auto simp: bind_traced_def split: sum.splits prod.splits) (metis fst_conv)

lemma get_nodes_trace: "q \<in> set (fst (get_nodes server)) \<Longrightarrow> q = hosts_request"
  unfolding get_nodes_def hosts_request_def
  using set_fst_bind_traced [of "WebHttpApi_get server ''/hosts'' Map.empty" "\<lambda>r. untraced (json r)"]
  by (auto simp: fst_untraced dest: WebHttpApi_get_trace)

lemma in_fst_bind_traced:
  assumes "q \<in> set (fst (bind_traced m f))"
  shows "q \<in> set (fst m) \<or> (\<exists>tr x. m = (tr, Inr x) \<and> q \<in> set (fst (f x)))"
  using assms by (auto simp: bind_traced_def split: sum.splits prod.splits)

lemma in_fst_bind_untraced:
  assumes "q \<in> set (fst (bind_traced (untraced x) f))"
  shows "\<exists>v. x = Inr v \<and> q \<in> set (fst (f v))"
  using assms by (auto simp: fst_bind_untraced split: sum.splits)

lemma get_arch_intervals_trace:
  assumes "q \<in> set (fst (get_arch_intervals env server display_id node begin_time end_time
                         limit scale sort_order))"
  shows "(node = PNone \<and> q = hosts_request)
       \<or> (\<exists>p1 p2 rest.
             add_int_to_dict env Map.empty ''limit'' limit = Inr p1
           \<and> add_int_to_dict env p1 ''scale'' scale = Inr p2
           \<and> q = \<lparr>req_path = ''/archive/contents/intervals/'' @ rest, req_params = p2\<rparr>)"
proof -
  let ?rest = "\<lambda>node. bind_traced (untraced (add_int_to_dict env Map.empty ''limit'' limit)) (\<lambda>params.
     bind_traced (untraced (add_int_to_dict env params ''scale'' scale)) (\<lambda>params.
       let end_time = (case end_time of None \<Rightarrow> ''future'' | Some t \<Rightarrow> arrow_to_ts env t);
           begin_time = (case begin_time of None \<Rightarrow> ''past'' | Some t \<Rightarrow> arrow_to_ts env t);
           cam = Camera_from_display_id env node display_id (PInt 0) (PInt 0)
       in
     bind_traced
       (WebHttpApi_get server
          (''/archive/contents/intervals/'' @ video_source_id cam @ ''/'' @ end_time
           @ ''/'' @ begin_time)
          params) (\<lambda>r.
     bind_traced (untraced (json r)) (\<lambda>data.
     bind_traced (untraced (getitem data ''intervals'')) (\<lambda>raw.
     bind_traced (untraced (py_iter raw)) (\<lambda>items.
     bind_traced (untraced (map_raising (parse_interval env) items)) (\<lambda>intervals.
     bind_traced (untraced (getitem data ''more'')) (\<lambda>more_flag.
       untraced (Inr (py_sorted iv_begin (sort_order = NEWER_FIRST) intervals, more_flag))))))))))"
  let ?res = "(if node = PNone then
          bind_traced (get_nodes server) (\<lambda>nodes.
          bind_traced (untraced (py_len nodes)) (\<lambda>n.
            if n \<noteq> 1 then
              untraced (Inl (PyException
                (''Cann't choose node name automatically: get_nodes() returns ''
                 @ format_val env nodes)))
            else untraced (py_first nodes)))
        else untraced (Inr node))"
  have rest: "\<exists>p1 p2 rest.
             add_int_to_dict env Map.empty ''limit'' limit = Inr p1
           \<and> add_int_to_dict env p1 ''scale'' scale = Inr p2
           \<and> q = \<lparr>req_path = ''/archive/contents/intervals/'' @ rest, req_params = p2\<rparr>"
    if q: "q \<in> set (fst (?rest nd))" for nd
  proof -
    from in_fst_bind_untraced [OF q] obtain p1
      where p1: "add_int_to_dict env Map.empty ''limit'' limit = Inr p1"
        and q1: "q \<in> set (fst (
     bind_traced (untraced (add_int_to_dict env p1 ''scale'' scale)) (\<lambda>params.
       let end_time = (case end_time of None \<Rightarrow> ''future'' | Some t \<Rightarrow> arrow_to_ts env t);
           begin_time = (case begin_time of None \<Rightarrow> ''past'' | Some t \<Rightarrow> arrow_to_ts env t);
           cam = Camera_from_display_id env nd display_id (PInt 0) (PInt 0)
       in
     bind_traced
       (WebHttpApi_get server
          (''/archive/contents/intervals/'' @ video_source_id cam @ ''/'' @ end_time
           @ ''/'' @ begin_time)
          params) (\<lambda>r.
     bind_traced (untraced (json r)) (\<lambda>data.
     bind_traced (untraced (getitem data ''intervals'')) (\<lambda>raw.
     bind_traced (untraced (py_iter raw)) (\<lambda>items.
     bind_traced (untraced (map_raising (parse_interval env) items)) (\<lambda>intervals.
     bind_traced (untraced (getitem data ''more'')) (\<lambda>more_flag.
       untraced (Inr (py_sorted iv_begin (sort_order = NEWER_FIRST) intervals, more_flag)))))))))))"
      by blast
    from in_fst_bind_untraced [OF q1] obtain p2
      where p2: "add_int_to_dict env p1 ''scale'' scale = Inr p2"
        and q2: "q \<in> set (fst (
       let end_time = (case end_time of None \<Rightarrow> ''future'' | Some t \<Rightarrow> arrow_to_ts env t);
           begin_time = (case begin_time of None \<Rightarrow> ''past'' | Some t \<Rightarrow> arrow_to_ts env t);
           cam = Camera_from_display_id env nd display_id (PInt 0) (PInt 0)
       in
     bind_traced
       (WebHttpApi_get server
          (''/archive/contents/intervals/'' @ video_source_id cam @ ''/'' @ end_time
           @ ''/'' @ begin_time)
          p2) (\<lambda>r.
     bind_traced (untraced (json r)) (\<lambda>data.
     bind_traced (untraced (getitem data ''intervals'')) (\<lambda>raw.
     bind_traced (untraced (py_iter raw)) (\<lambda>items.
     bind_traced (untraced (map_raising (parse_interval env) items)) (\<lambda>intervals.
     bind_traced (untraced (getitem data ''more'')) (\<lambda>more_flag.
       untraced (Inr (py_sorted iv_begin (sort_order = NEWER_FIRST) intervals, more_flag))))))))))"
      by blast
    from in_fst_bind_traced [OF q2 [unfolded Let_def]]
    have "\<exists>rest. q = \<lparr>req_path = ''/archive/contents/intervals/'' @ rest, req_params = p2\<rparr>"
      by (auto simp: fst_bind_untraced fst_untraced split: sum.splits dest!: WebHttpApi_get_trace)
    with p1 p2 show ?thesis
      by blast
  qed
  have res: "node = PNone \<and> q = hosts_request" if q: "q \<in> set (fst ?res)"
  proof (cases "node = PNone")
    case True
    with q have "q \<in> set (fst (bind_traced (get_nodes server) (\<lambda>nodes.
          bind_traced (untraced (py_len nodes)) (\<lambda>n.
            if n \<noteq> 1 then
              untraced (Inl (PyException
                (''Cann't choose node name automatically: get_nodes() returns ''
                 @ format_val env nodes)))
            else untraced (py_first nodes)))))"
      by simp
    from in_fst_bind_traced [OF this] have "q \<in> set (fst (get_nodes server))"
      by (auto simp: fst_bind_untraced fst_untraced split: sum.splits if_splits)
    with True show ?thesis
      by (simp add: get_nodes_trace)
  next
    case False
    with q show ?thesis
      by (simp add: fst_untraced)
  qed
  from assms have "q \<in> set (fst (bind_traced ?res ?rest))"
    by (simp only: get_arch_intervals_def)
  with set_fst_bind_traced [of ?res ?rest]
  have "q \<in> set (fst ?res) \<or> (\<exists>nd. q \<in> set (fst (?rest nd)))"
    by auto
  with rest res show ?thesis
    by blast
qed

lemma bind_untraced_Inr: "bind_traced (untraced (Inr x)) f = f x"
  by (simp add: bind_traced_def untraced_def split: prod.splits)

lemma bind_untraced_Inl: "bind_traced (untraced (Inl e)) f = untraced (Inl e)"
  by (simp add: bind_traced_def untraced_def)

lemma bind_traced_Inl: "bind_traced (tr, Inl e) f = (tr, Inl e)"
  by (simp add: bind_traced_def)

lemma bind_traced_Inr: "bind_traced (tr, Inr x) f = (tr @ fst (f x), snd (f x))"
  by (simp add: bind_traced_def split: prod.splits)

lemma snd_untraced: "snd (untraced x) = x"
  by (simp add: untraced_def)

lemma get_nodes_Inr_trace:
  assumes "get_nodes server = (tr, Inr nodes)"
  shows "tr = [hosts_request]"
  using assms
  by (auto simp: get_nodes_def WebHttpApi_get_def startswith_def Let_def hosts_request_def
        bind_traced_def untraced_def split: sum.splits prod.splits)

lemma get_arch_intervals_one_node:
  assumes "get_nodes server = (tr, Inr nodes)" "py_len nodes = Inr 1" "py_first nodes = Inr nd"
    "nd \<noteq> PNone"
  shows "get_arch_intervals env server display_id PNone begin_time end_time limit scale sort_order =
    (tr @ fst (get_arch_intervals env server display_id nd begin_time end_time limit scale sort_order),
     snd (get_arch_intervals env server display_id nd begin_time end_time limit scale sort_order))"
  using assms
  by (simp add: get_arch_intervals_def bind_untraced_Inr bind_traced_Inr fst_untraced snd_untraced)

lemma get_arch_intervals_not_one_node:
  assumes "get_nodes server = (tr, Inr nodes)" "py_len nodes = Inr n" "n \<noteq> 1"
  shows "get_arch_intervals env server display_id PNone begin_time end_time limit scale sort_order =
    ([hosts_request], Inl (PyException
                (''Cann't choose node name automatically: get_nodes() returns ''
                 @ format_val env nodes)))"
  using assms get_nodes_Inr_trace [OF assms(1)]
  by (simp add: get_arch_intervals_def bind_untraced_Inr bind_traced_Inr bind_untraced_Inl
      bind_traced_Inl fst_untraced snd_untraced)

text \<open>
  Claim C9. Called without a node, \<open>get_arch_intervals\<close> asks \<open>get_nodes\<close>: when the
  answer does not have exactly one entry it raises at once, the request to \<open>/hosts\<close>
  being the only one issued; when the answer has exactly one entry it goes on as the
  call with that node does. Called with a node, it issues no request to \<open>/hosts\<close>.
\<close>

theorem get_arch_intervals_node_resolution:
  "(node = PNone \<and> get_nodes server = (tr, Inr nodes) \<and> py_len nodes = Inr n \<and> n \<noteq> 1 \<longrightarrow>
      get_arch_intervals env server display_id node begin_time end_time limit scale sort_order =
        ([hosts_request],
         Inl (PyException (''Cann't choose node name automatically: get_nodes() returns ''
                           @ format_val env nodes))))
   \<and> (node = PNone \<and> get_nodes server = (tr, Inr nodes) \<and> py_len nodes = Inr 1
        \<and> py_first nodes = Inr nd \<and> nd \<noteq> PNone \<longrightarrow>
      get_arch_intervals env server display_id node begin_time end_time limit scale sort_order =
        (hosts_request #
           fst (get_arch_intervals env server display_id nd begin_time end_time limit scale sort_order),
         snd (get_arch_intervals env server display_id nd begin_time end_time limit scale sort_order)))
   \<and> (node \<noteq> PNone \<longrightarrow>
      (\<forall>q \<in> set (fst (get_arch_intervals env server display_id node begin_time end_time
                         limit scale sort_order)).
         req_path q \<noteq> ''/hosts''))"
proof (intro conjI impI ballI)
  assume "node = PNone \<and> get_nodes server = (tr, Inr nodes) \<and> py_len nodes = Inr n \<and> n \<noteq> 1"
  then show "get_arch_intervals env server display_id node begin_time end_time limit scale sort_order =
        ([hosts_request],
         Inl (PyException (''Cann't choose node name automatically: get_nodes() returns ''
                           @ format_val env nodes)))"
    by (simp add: get_arch_intervals_not_one_node)
next
  assume a: "node = PNone \<and> get_nodes server = (tr, Inr nodes) \<and> py_len nodes = Inr 1
        \<and> py_first nodes = Inr nd \<and> nd \<noteq> PNone"
  then have "tr = [hosts_request]"
    by (blast intro: get_nodes_Inr_trace)
  with a get_arch_intervals_one_node [of server tr nodes nd env display_id begin_time end_time
      limit scale sort_order]
  show "get_arch_intervals env server display_id node begin_time end_time limit scale sort_order =
        (hosts_request #
           fst (get_arch_intervals env server display_id nd begin_time end_time limit scale sort_order),
         snd (get_arch_intervals env server display_id nd begin_time end_time limit scale sort_order))"
    by simp
next
  fix q
  assume "node \<noteq> PNone"
    and "q \<in> set (fst (get_arch_intervals env server display_id node begin_time end_time
                         limit scale sort_order))"
  with get_arch_intervals_trace [of q env server display_id node begin_time end_time limit scale
      sort_order]
  show "req_path q \<noteq> ''/hosts''"
    by auto
qed

lemma add_int_to_dict_Inr:
  assumes "add_int_to_dict env d key val = Inr d'"
  shows "(val = PNone \<and> d' = d) \<or> (val \<noteq> PNone \<and> (\<exists>n. py_int env val = Inr n \<and> d' = d(''key'' \<mapsto> n)))"
  using assms by (auto simp: add_int_to_dict_def split: if_splits sum.splits)

text \<open>
  Claim C10. No request of \<open>get_arch_intervals\<close> has \<open>limit\<close> or \<open>scale\<close> among its query
  parameters. The interval query carries the integer of \<open>scale\<close> under the key \<open>key\<close>
  when \<open>scale\<close> is given, otherwise the integer of \<open>limit\<close> under \<open>key\<close> when \<open>limit\<close> is
  given, and no parameter when neither is.
\<close>

theorem get_arch_intervals_params_key:
  assumes "q \<in> set (fst (get_arch_intervals env server display_id node begin_time end_time
                         limit scale sort_order))"
  shows "''limit'' \<notin> dom (req_params q) \<and> ''scale'' \<notin> dom (req_params q)
       \<and> (req_path q \<noteq> ''/hosts'' \<longrightarrow>
            (scale \<noteq> PNone \<longrightarrow>
               (\<exists>n. py_int env scale = Inr n \<and> req_params q = [''key'' \<mapsto> n]))
          \<and> (scale = PNone \<and> limit \<noteq> PNone \<longrightarrow>
               (\<exists>m. py_int env limit = Inr m \<and> req_params q = [''key'' \<mapsto> m]))
          \<and> (scale = PNone \<and> limit = PNone \<longrightarrow> req_params q = Map.empty))"
proof -
  from get_arch_intervals_trace [OF assms]
  consider (hosts) "q = hosts_request"
    | (query) p1 p2 rest where
        "add_int_to_dict env Map.empty ''limit'' limit = Inr p1"
        "add_int_to_dict env p1 ''scale'' scale = Inr p2"
        "q = \<lparr>req_path = ''/archive/contents/intervals/'' @ rest, req_params = p2\<rparr>"
    by blast
  then show ?thesis
  proof cases
    case hosts
    then show ?thesis
      by (simp add: hosts_request_def)
  next
    case query
    from add_int_to_dict_Inr [OF query(1)] add_int_to_dict_Inr [OF query(2)] query(3)
    show ?thesis
      by auto
  qed
qed

lemmas example_eval = get_arch_intervals_def example_env_def example_server_def example_intervals_def
  bind_traced_def untraced_def WebHttpApi_get_def WebHttpApi_check_for_error_def raise_for_status_def
  json_def add_int_to_dict_def Camera_from_display_id_def video_source_id_def startswith_def
  parse_interval_def py_sorted_def get_nodes_def hosts_request_def

lemma example_newer_first:
  "get_arch_intervals example_env (example_server (PList [PStr ''N''])) (PStr ''3'') (PStr ''N'')
     None None PNone PNone NEWER_FIRST
   = ([\<lparr>req_path = ''/archive/contents/intervals/N/DeviceIpint.3/SourceEndpoint.video:0:0/future/past'',
        req_params = Map.empty\<rparr>],
      Inr ([\<lparr>iv_begin = 30, iv_end = 40\<rparr>, \<lparr>iv_begin = 10, iv_end = 20\<rparr>], PBool False))"
  by (simp add: example_eval)

lemma example_older_first:
  "get_arch_intervals example_env (example_server (PList [PStr ''N''])) (PStr ''3'') (PStr ''N'')
     None None PNone PNone OLDER_FIRST
   = ([\<lparr>req_path = ''/archive/contents/intervals/N/DeviceIpint.3/SourceEndpoint.video:0:0/future/past'',
        req_params = Map.empty\<rparr>],
      Inr ([\<lparr>iv_begin = 10, iv_end = 20\<rparr>, \<lparr>iv_begin = 30, iv_end = 40\<rparr>], PBool False))"
  by (simp add: example_eval)

theorem get_arch_intervals_sorted_witness:
  "get_arch_intervals example_env (example_server (PList [PStr ''N''])) (PStr ''3'') (PStr ''N'')
     None None PNone PNone NEWER_FIRST
   = ([\<lparr>req_path = ''/archive/contents/intervals/N/DeviceIpint.3/SourceEndpoint.video:0:0/future/past'',
        req_params = Map.empty\<rparr>],
      Inr ([\<lparr>iv_begin = 30, iv_end = 40\<rparr>, \<lparr>iv_begin = 10, iv_end = 20\<rparr>], PBool False))
   \<and> sorted_wrt (\<lambda>x y. y \<le> x)
         (map iv_begin [\<lparr>iv_begin = 30, iv_end = 40\<rparr>, \<lparr>iv_begin = 10, iv_end = (20::int)\<rparr>])
   \<and> get_arch_intervals example_env (example_server (PList [PStr ''N''])) (PStr ''3'') (PStr ''N'')
     None None PNone PNone OLDER_FIRST
   = ([\<lparr>req_path = ''/archive/contents/intervals/N/DeviceIpint.3/SourceEndpoint.video:0:0/future/past'',
        req_params = Map.empty\<rparr>],
      Inr ([\<lparr>iv_begin = 10, iv_end = 20\<rparr>, \<lparr>iv_begin = 30, iv_end = 40\<rparr>], PBool False))
   \<and> sorted_wrt (\<lambda>x y. x \<le> y)
         (map iv_begin [\<lparr>iv_begin = 10, iv_end = 20\<rparr>, \<lparr>iv_begin = 30, iv_end = (40::int)\<rparr>])"
  using example_newer_first example_older_first
    get_arch_intervals_sorted [OF example_newer_first]
    get_arch_intervals_sorted [OF example_older_first]
  by blast

lemma example_two_nodes:
  "get_nodes (example_server (PList [PStr ''N1'', PStr ''N2'']))
     = ([hosts_request], Inr (PList [PStr ''N1'', PStr ''N2'']))"
  by (simp add: example_eval)

lemma example_one_node:
  "get_nodes (example_server (PList [PStr ''N''])) = ([hosts_request], Inr (PList [PStr ''N'']))"
  by (simp add: example_eval)

theorem get_arch_intervals_node_resolution_witness:
  "get_nodes (example_server (PList [PStr ''N1'', PStr ''N2'']))
     = ([hosts_request], Inr (PList [PStr ''N1'', PStr ''N2'']))
   \<and> py_len (PList [PStr ''N1'', PStr ''N2'']) = Inr 2
   \<and> get_arch_intervals example_env (example_server (PList [PStr ''N1'', PStr ''N2'']))
        (PStr ''3'') PNone None None PNone PNone NEWER_FIRST
      = ([hosts_request],
         Inl (PyException (''Cann't choose node name automatically: get_nodes() returns ''
                @ format_val example_env (PList [PStr ''N1'', PStr ''N2'']))))
   \<and> get_nodes (example_server (PList [PStr ''N''])) = ([hosts_request], Inr (PList [PStr ''N'']))
   \<and> py_len (PList [PStr ''N'']) = Inr 1
   \<and> py_first (PList [PStr ''N'']) = Inr (PStr ''N'')
   \<and> get_arch_intervals example_env (example_server (PList [PStr ''N''])) (PStr ''3'') PNone
        None None PNone PNone NEWER_FIRST
      = ([hosts_request,
          \<lparr>req_path = ''/archive/contents/intervals/N/DeviceIpint.3/SourceEndpoint.video:0:0/future/past'',
           req_params = Map.empty\<rparr>],
         Inr ([\<lparr>iv_begin = 30, iv_end = 40\<rparr>, \<lparr>iv_begin = 10, iv_end = 20\<rparr>], PBool False))
   \<and> req_path \<lparr>req_path = ''/archive/contents/intervals/N/DeviceIpint.3/SourceEndpoint.video:0:0/future/past'',
           req_params = Map.empty\<rparr> \<noteq> ''/hosts''"
proof -
  let ?two = "PList [PStr ''N1'', PStr ''N2'']"
  let ?one = "PList [PStr ''N'']"
  let ?q = "\<lparr>req_path = ''/archive/contents/intervals/N/DeviceIpint.3/SourceEndpoint.video:0:0/future/past'',
           req_params = Map.empty\<rparr>"
  have h1: "PNone = PNone \<and> get_nodes (example_server ?two) = ([hosts_request], Inr ?two)
            \<and> py_len ?two = Inr 2 \<and> (2::nat) \<noteq> 1"
    using example_two_nodes by simp
  have h2: "PNone = PNone \<and> get_nodes (example_server ?one) = ([hosts_request], Inr ?one)
            \<and> py_len ?one = Inr 1 \<and> py_first ?one = Inr (PStr ''N'') \<and> PStr ''N'' \<noteq> PNone"
    using example_one_node by simp
  have h3: "PStr ''N'' \<noteq> PNone"
    by simp
  have m: "?q \<in> set (fst (get_arch_intervals example_env (example_server ?one) (PStr ''3'')
             (PStr ''N'') None None PNone PNone NEWER_FIRST))"
    by (simp add: example_newer_first)
  from h1 get_arch_intervals_node_resolution
    [of PNone "example_server ?two" "[hosts_request]" ?two 2 example_env "PStr ''3''" None None
       PNone PNone NEWER_FIRST]
  have c1: "get_arch_intervals example_env (example_server ?two)
        (PStr ''3'') PNone None None PNone PNone NEWER_FIRST
      = ([hosts_request],
         Inl (PyException (''Cann't choose node name automatically: get_nodes() returns ''
                @ format_val example_env ?two)))"
    by blast
  from h2 get_arch_intervals_node_resolution
    [of PNone "example_server ?one" "[hosts_request]" ?one 2 example_env "PStr ''3''" None None
       PNone PNone NEWER_FIRST "PStr ''N''"]
  have "get_arch_intervals example_env (example_server ?one) (PStr ''3'') PNone
        None None PNone PNone NEWER_FIRST
      = (hosts_request #
           fst (get_arch_intervals example_env (example_server ?one) (PStr ''3'') (PStr ''N'')
                  None None PNone PNone NEWER_FIRST),
         snd (get_arch_intervals example_env (example_server ?one) (PStr ''3'') (PStr ''N'')
                  None None PNone PNone NEWER_FIRST))"
    by blast
  then have c2: "get_arch_intervals example_env (example_server ?one) (PStr ''3'') PNone
        None None PNone PNone NEWER_FIRST
      = ([hosts_request, ?q],
         Inr ([\<lparr>iv_begin = 30, iv_end = 40\<rparr>, \<lparr>iv_begin = 10, iv_end = 20\<rparr>], PBool False))"
    by (simp only: example_newer_first fst_conv snd_conv)
  from h3 m get_arch_intervals_node_resolution
    [of "PStr ''N''" "example_server ?one" "[]" ?one 2 example_env "PStr ''3''" None None
       PNone PNone NEWER_FIRST]
  have c3: "req_path ?q \<noteq> ''/hosts''"
    by blast
  from h1 h2 c1 c2 c3 show ?thesis
    by blast
qed

lemma example_limit:
  "get_arch_intervals example_env (example_server (PList [PStr ''N''])) (PStr ''3'') (PStr ''N'')
     None None (PInt 5) PNone NEWER_FIRST
   = ([\<lparr>req_path = ''/archive/contents/intervals/N/DeviceIpint.3/SourceEndpoint.video:0:0/future/past'',
        req_params = [''key'' \<mapsto> 5]\<rparr>],
      Inr ([\<lparr>iv_begin = 30, iv_end = 40\<rparr>, \<lparr>iv_begin = 10, iv_end = 20\<rparr>], PBool False))"
  by (simp add: example_eval)

lemma example_limit_scale:
  "get_arch_intervals example_env (example_server (PList [PStr ''N''])) (PStr ''3'') (PStr ''N'')
     None None (PInt 5) (PInt 7) NEWER_FIRST
   = ([\<lparr>req_path = ''/archive/contents/intervals/N/DeviceIpint.3/SourceEndpoint.video:0:0/future/past'',
        req_params = [''key'' \<mapsto> 7]\<rparr>],
      Inr ([\<lparr>iv_begin = 30, iv_end = 40\<rparr>, \<lparr>iv_begin = 10, iv_end = 20\<rparr>], PBool False))"
  by (simp add: example_eval)

theorem get_arch_intervals_params_key_witness:
  "fst (get_arch_intervals example_env (example_server (PList [PStr ''N''])) (PStr ''3'') (PStr ''N'')
     None None (PInt 5) (PInt 7) NEWER_FIRST)
   = [\<lparr>req_path = ''/archive/contents/intervals/N/DeviceIpint.3/SourceEndpoint.video:0:0/future/past'',
        req_params = [''key'' \<mapsto> 7]\<rparr>]
   \<and> ''limit'' \<notin> dom [''key'' \<mapsto> (7::int)] \<and> ''scale'' \<notin> dom [''key'' \<mapsto> (7::int)]
   \<and> fst (get_arch_intervals example_env (example_server (PList [PStr ''N''])) (PStr ''3'') (PStr ''N'')
     None None (PInt 5) PNone NEWER_FIRST)
   = [\<lparr>req_path = ''/archive/contents/intervals/N/DeviceIpint.3/SourceEndpoint.video:0:0/future/past'',
        req_params = [''key'' \<mapsto> 5]\<rparr>]
   \<and> ''limit'' \<notin> dom [''key'' \<mapsto> (5::int)] \<and> ''scale'' \<notin> dom [''key'' \<mapsto> (5::int)]"
proof -
  let ?q7 = "\<lparr>req_path = ''/archive/contents/intervals/N/DeviceIpint.3/SourceEndpoint.video:0:0/future/past'',
        req_params = [''key'' \<mapsto> 7]\<rparr>"
  let ?q5 = "\<lparr>req_path = ''/archive/contents/intervals/N/DeviceIpint.3/SourceEndpoint.video:0:0/future/past'',
        req_params = [''key'' \<mapsto> 5]\<rparr>"
  have m7: "?q7 \<in> set (fst (get_arch_intervals example_env (example_server (PList [PStr ''N'']))
              (PStr ''3'') (PStr ''N'') None None (PInt 5) (PInt 7) NEWER_FIRST))"
    by (simp add: example_limit_scale)
  have m5: "?q5 \<in> set (fst (get_arch_intervals example_env (example_server (PList [PStr ''N'']))
              (PStr ''3'') (PStr ''N'') None None (PInt 5) PNone NEWER_FIRST))"
    by (simp add: example_limit)
  from get_arch_intervals_params_key [OF m7]
  have c7: "''limit'' \<notin> dom [''key'' \<mapsto> (7::int)] \<and> ''scale'' \<notin> dom [''key'' \<mapsto> (7::int)]"
    by simp
  from get_arch_intervals_params_key [OF m5]
  have c5: "''limit'' \<notin> dom [''key'' \<mapsto> (5::int)] \<and> ''scale'' \<notin> dom [''key'' \<mapsto> (5::int)]"
    by simp
  from c7 c5 show ?thesis
    by (simp add: example_limit example_limit_scale)
qed

subsection \<open>Export of video\<close>

lemma export_finish_not_done:
  assumes "getitem resp_dict ''state'' = Inr st" "st \<noteq> PInt 2"
  shows "fst (export_finish env job_id file_server save_dir resp_dict) = []
       \<and> (\<exists>e. snd (export_finish env job_id file_server save_dir resp_dict) = Inl e)"
  using assms by (simp add: export_finish_def split: sum.splits)

text \<open>
  Claim C7. When the polling loop ends in a state other than \<open>DONE\<close> (so in \<open>ERROR\<close> or
  \<open>NO_SPACE\<close>), \<open>export_video\<close> raises and writes no file; for a status that holds the
  \<open>error\<close> and \<open>progress\<close> fields, the exception's message carries the error string,
  the state code and the progress.
\<close>

theorem export_video_terminal_error:
  assumes "poll_status env job_id status_responses (Finite 1) (Finite 0) = (ds, Some (Inr resp_dict))"
    and "getitem resp_dict ''state'' = Inr st"
    and "st \<noteq> PInt 2"
  shows "written (export_video env job_id status_responses file_server save_dir) = []
       \<and> (\<exists>e. outcome (export_video env job_id status_responses file_server save_dir) = Some (Inl e))
       \<and> (\<forall>er pr. getitem resp_dict ''error'' = Inr er \<and> getitem resp_dict ''progress'' = Inr pr \<longrightarrow>
            outcome (export_video env job_id status_responses file_server save_dir) =
              Some (Inl (PyException
                (''Error during export: \"'' @ format_val env er @ ''\" (code=''
                 @ format_val env st @ ''). Progress: '' @ format_val env pr @ ''.''))))"
proof -
  obtain ws res where fin: "export_finish env job_id file_server save_dir resp_dict = (ws, res)"
    by (cases "export_finish env job_id file_server save_dir resp_dict")
  with assms(1)
  have ev: "export_video env job_id status_responses file_server save_dir =
              \<lparr>slept = ds, written = ws, outcome = Some res\<rparr>"
    by (simp add: export_video_def)
  from export_finish_not_done [OF assms(2,3), of env job_id file_server save_dir] fin
  have ws: "ws = []" and res: "\<exists>e. res = Inl e"
    by simp_all
  have "res = Inl (PyException
                (''Error during export: \"'' @ format_val env er @ ''\" (code=''
                 @ format_val env st @ ''). Progress: '' @ format_val env pr @ ''.''))"
    if "getitem resp_dict ''error'' = Inr er" "getitem resp_dict ''progress'' = Inr pr" for er pr
    using that assms(2,3) fin by (simp add: export_finish_def)
  with ev ws res show ?thesis
    by simp
qed

lemmas export_eval = in_progress_def export_failed_def example_env_def startswith_def
  WebHttpApi_check_for_error_def raise_for_status_def json_def next_sleep_def fsub_def clamp_sleep_def

lemma example_failed_poll:
  "poll_status example_env ''/export/1'' [in_progress (PFloat (Finite (1 / 2))), export_failed]
     (Finite 1) (Finite 0)
   = ([Finite 1],
      Some (Inr (PDict [(''state'', PInt 3), (''error'', PStr ''disk failure''),
                        (''progress'', PFloat (Finite (1 / 2)))])))"
  by (simp add: export_eval)

theorem export_video_terminal_error_witness:
  "poll_status example_env ''/export/1'' [in_progress (PFloat (Finite (1 / 2))), export_failed]
     (Finite 1) (Finite 0)
   = ([Finite 1],
      Some (Inr (PDict [(''state'', PInt 3), (''error'', PStr ''disk failure''),
                        (''progress'', PFloat (Finite (1 / 2)))])))
   \<and> written (export_video example_env ''/export/1''
        [in_progress (PFloat (Finite (1 / 2))), export_failed] (\<lambda>p. export_failed) ''out'') = []
   \<and> outcome (export_video example_env ''/export/1''
        [in_progress (PFloat (Finite (1 / 2))), export_failed] (\<lambda>p. export_failed) ''out'')
      = Some (Inl (PyException ''Error during export: \"disk failure\" (code=3). Progress: 0.5.''))"
proof -
  let ?d = "PDict [(''state'', PInt 3), (''error'', PStr ''disk failure''),
                   (''progress'', PFloat (Finite (1 / 2)))]"
  have h2: "getitem ?d ''state'' = Inr (PInt 3)" and h3: "PInt 3 \<noteq> PInt 2"
    and h4: "getitem ?d ''error'' = Inr (PStr ''disk failure'')
           \<and> getitem ?d ''progress'' = Inr (PFloat (Finite (1 / 2)))"
    by simp_all
  have f: "format_val example_env (PStr ''disk failure'') = ''disk failure''"
    "format_val example_env (PInt 3) = ''3''"
    "format_val example_env (PFloat (Finite (1 / 2))) = ''0.5''"
    by (simp_all add: example_env_def)
  from export_video_terminal_error [OF example_failed_poll h2 h3, of "\<lambda>p. export_failed" "''out''"] h4
  have "written (export_video example_env ''/export/1''
        [in_progress (PFloat (Finite (1 / 2))), export_failed] (\<lambda>p. export_failed) ''out'') = []
    \<and> outcome (export_video example_env ''/export/1''
        [in_progress (PFloat (Finite (1 / 2))), export_failed] (\<lambda>p. export_failed) ''out'')
      = Some (Inl (PyException
                (''Error during export: \"'' @ format_val example_env (PStr ''disk failure'') @ ''\" (code=''
                 @ format_val example_env (PInt 3) @ ''). Progress: ''
                 @ format_val example_env (PFloat (Finite (1 / 2))) @ ''.'')))"
    by blast
  with example_failed_poll show ?thesis
    by (simp only: f) simp
qed

text \<open>
  Claim C3 says that every duration passed to \<open>time.sleep\<close> lies in the interval from 1
  to 30. The code breaks it for a progress that is NaN: both comparisons of the
  \<open>finally\<close> clause are false, NaN is passed to \<open>time.sleep\<close> and added to \<open>acc_sleep\<close>,
  and the next duration is NaN again, whatever progress is reported then.
\<close>

theorem export_video_sleep_nan:
  "poll_status example_env ''/export/1''
     [in_progress (PFloat NaN), in_progress (PFloat (Finite (1 / 2)))] (Finite 1) (Finite 0)
   = ([NaN, NaN], None)"
  by (simp add: export_eval)

text \<open>
  A status in progress without a \<open>progress\<close> field: the \<open>try\<close> statement swallows the
  \<open>KeyError\<close>, the logging line after it raises it again, and nothing is slept.
\<close>

theorem export_video_progress_missing:
  "poll_status example_env ''/export/1''
     [\<lparr>status_code = 200, headers = [], text_body = [],
       json_body = Some (PDict [(''state'', PInt 1)])\<rparr>] (Finite 1) (Finite 0)
   = ([], Some (Inl (KeyError ''progress'')))"
  by (simp add: export_eval)

lemma clamp_sleep_range:
  "clamp_sleep s = NaN \<or> (\<exists>x. clamp_sleep s = Finite x \<and> 1 \<le> x \<and> x \<le> 30)"
  by (cases s) (auto simp: clamp_sleep_def)

text \<open>
  Every duration the polling loop passes to \<open>time.sleep\<close> is NaN or lies in the interval
  from 1 to 30, whatever the server answers.
\<close>

theorem poll_status_sleep_range:
  assumes "d \<in> set (fst (poll_status env job_id status_responses sleep acc_sleep))"
  shows "d = NaN \<or> (\<exists>x. d = Finite x \<and> 1 \<le> x \<and> x \<le> 30)"
  using assms
proof (induction status_responses arbitrary: sleep acc_sleep)
  case Nil
  then show ?case
    by simp
next
  case (Cons r rs)
  from Cons.prems obtain s a where
    "d = clamp_sleep s \<or> d \<in> set (fst (poll_status env job_id rs s a))"
    by (auto simp: Let_def split: if_splits sum.splits prod.splits) (metis fst_conv)+
  then show ?case
    using Cons.IH clamp_sleep_range by blast
qed

lemma example_poll_twice:
  "poll_status example_env ''/export/1''
     [in_progress (PFloat (Finite (1 / 10))), in_progress (PFloat (Finite (1 / 10)))]
     (Finite 1) (Finite 0)
   = ([Finite 1, Finite (9 / 2)], None)"
  by (simp add: export_eval)

theorem poll_status_sleep_range_witness:
  "Finite (9 / 2) \<in> set (fst (poll_status example_env ''/export/1''
      [in_progress (PFloat (Finite (1 / 10))), in_progress (PFloat (Finite (1 / 10)))]
      (Finite 1) (Finite 0)))
   \<and> (1::rat) \<le> 9 / 2 \<and> (9 / 2 :: rat) \<le> 30"
proof -
  have m: "Finite (9 / 2) \<in> set (fst (poll_status example_env ''/export/1''
      [in_progress (PFloat (Finite (1 / 10))), in_progress (PFloat (Finite (1 / 10)))]
      (Finite 1) (Finite 0)))"
    unfolding example_poll_twice by simp
  from poll_status_sleep_range [OF m]
  have "(1::rat) \<le> 9 / 2 \<and> (9 / 2 :: rat) \<le> 30"
    by auto
  with m show ?thesis
    by blast
qed

end
